theory Spec2Isabelle
  imports Complex_Main "HOL-Library.Word" "HOL-Library.Sublist"
begin

section \<open>JavaScript values\<close>

text \<open>
  A JavaScript string is a sequence of UTF-16 code units. The Japanese literals of the
  source are written out as their code units; ASCII literals go through \<open>ascii\<close>.
\<close>

type_synonym jstring = "16 word list"

definition ascii :: "string \<Rightarrow> jstring" where
  "ascii s = map of_char s"

text \<open>
  The values a flattened Firestore record can hold (\<open>parseFirestoreDoc\<close> produces
  strings, booleans, numbers and \<open>null\<close>), and \<open>undefined\<close> for a property that is
  not there. Numbers are the rationals among the doubles; \<open>NaN\<close> never reaches a record.
\<close>

datatype jsval = JUndef | JNull | JBool bool | JNum rat | JStr jstring

fun truthy :: "jsval \<Rightarrow> bool" where
  "truthy JUndef = False"
| "truthy JNull = False"
| "truthy (JBool b) = b"
| "truthy (JNum q) = (q \<noteq> 0)"
| "truthy (JStr s) = (s \<noteq> [])"

text \<open>\<open>a || b\<close>\<close>

definition js_or :: "jsval \<Rightarrow> jsval \<Rightarrow> jsval" where
  "js_or a b = (if truthy a then a else b)"

text \<open>A flat object; property names are the fixed ASCII names the code reads.\<close>

type_synonym jsobject = "string \<rightharpoonup> jsval"

definition js_get :: "jsobject \<Rightarrow> string \<Rightarrow> jsval" where
  "js_get obj k = (case obj k of None \<Rightarrow> JUndef | Some v \<Rightarrow> v)"

datatype js_error = TypeError | SyntaxError | NetworkError

subsection \<open>Built-ins of the runtime\<close>

datatype fs_value =
    StringValue jstring
  | BooleanValue bool
  | IntegerValue int
  | DoubleValue rat
  | OtherValue

datatype fs_doc = FsDoc (doc_name: jstring) (doc_fields: "(string \<rightharpoonup> fs_value) option")

datatype fs_listing = Listing (documents: "fs_doc list option")

datatype json =
    JsNull
  | JsBool bool
  | JsNum rat
  | JsStr jstring
  | JsArr "json list"
  | JsObj "(string \<times> json) list"

text \<open>
  The built-in functions the code calls and this theory does not define: number to string
  conversion, the date parser behind \<open>new Date(string)\<close> (\<open>None\<close> is an invalid date,
  otherwise the time value in milliseconds), and \<open>JSON.parse\<close> (\<open>None\<close> when it throws),
  once typed as a Firestore list response and once as a plain JSON value. A Firestore value
  carries one of \<open>stringValue\<close>, \<open>booleanValue\<close>, \<open>integerValue\<close>, \<open>doubleValue\<close> or
  some other kind, which \<open>parseFirestoreDoc\<close> turns into \<open>null\<close>.
\<close>

record js_runtime =
  Number_toString :: "rat \<Rightarrow> jstring"
  Date_parse :: "jstring \<Rightarrow> int option"
  JSON_parse_listing :: "jstring \<Rightarrow> fs_listing option"
  JSON_parse :: "jstring \<Rightarrow> json option"

fun ToString :: "js_runtime \<Rightarrow> jsval \<Rightarrow> jstring" where
  "ToString rt JUndef = ascii ''undefined''"
| "ToString rt JNull = ascii ''null''"
| "ToString rt (JBool b) = (if b then ascii ''true'' else ascii ''false'')"
| "ToString rt (JNum q) = Number_toString rt q"
| "ToString rt (JStr s) = s"

subsection \<open>\<open>String.prototype.replace\<close> with a string pattern\<close>

fun StringIndexOf :: "jstring \<Rightarrow> jstring \<Rightarrow> nat option" where
  "StringIndexOf [] pat = (if pat = [] then Some 0 else None)"
| "StringIndexOf (c # cs) pat =
     (if prefix pat (c # cs) then Some 0 else map_option Suc (StringIndexOf cs pat))"

text \<open>
  The replacement text is a template: \<open>$$\<close> stands for a dollar sign, \<open>$&\<close> for the
  matched text, \<open>$`\<close> for the text before the match and \<open>$'\<close> for the text after it.
  With a string pattern there are no captures, so every other \<open>$\<close> is literal.
\<close>

fun GetSubstitution :: "jstring \<Rightarrow> jstring \<Rightarrow> jstring \<Rightarrow> jstring \<Rightarrow> jstring" where
  "GetSubstitution matched preceding following (c # d # rest) =
     (if c = 0x24 \<and> d = 0x24 then 0x24 # GetSubstitution matched preceding following rest
      else if c = 0x24 \<and> d = 0x60 then preceding @ GetSubstitution matched preceding following rest
      else if c = 0x24 \<and> d = 0x26 then matched @ GetSubstitution matched preceding following rest
      else if c = 0x24 \<and> d = 0x27 then following @ GetSubstitution matched preceding following rest
      else c # GetSubstitution matched preceding following (d # rest))"
| "GetSubstitution matched preceding following [c] = [c]"
| "GetSubstitution matched preceding following [] = []"

definition replace :: "jstring \<Rightarrow> jstring \<Rightarrow> jstring \<Rightarrow> jstring" where
  "replace str searchString replaceValue =
     (case StringIndexOf str searchString of
        None \<Rightarrow> str
      | Some pos \<Rightarrow>
          (let preceding = take pos str;
               following = drop (pos + length searchString) str
           in preceding @ GetSubstitution searchString preceding following replaceValue @ following))"

section \<open>check-reminders\<close>

subsection \<open>The network\<close>

text \<open>
  \<open>request\<close> resolves with status and body, or rejects on a transport error (with the
  error's message). What the peer answers may depend on the requests already made in this
  invocation.
\<close>

datatype http_request =
    FirestoreGet jstring jstring jstring
  | LinePush jsval jstring jstring

datatype http_result = NetError jstring | Response int jstring

type_synonym network = "http_request list \<Rightarrow> http_request \<Rightarrow> http_result"

text \<open>
  A call that throws leaves behind the requests already made; a call that returns gives
  its value.
\<close>

type_synonym 'a completion = "(js_error \<times> http_request list) + 'a"

fun decode :: "fs_value \<Rightarrow> jsval" where
  "decode (StringValue s) = JStr s"
| "decode (BooleanValue b) = JBool b"
| "decode (IntegerValue n) = JNum (of_int n)"
| "decode (DoubleValue q) = JNum q"
| "decode OtherValue = JNull"

definition last_segment :: "jstring \<Rightarrow> jstring" where
  "last_segment s = rev (takeWhile (\<lambda>c. c \<noteq> 0x2F) (rev s))"

definition parseFirestoreDoc :: "fs_doc \<Rightarrow> jsobject" where
  "parseFirestoreDoc doc =
     (let fields = (case doc_fields doc of None \<Rightarrow> Map.empty | Some f \<Rightarrow> f)
      in (map_option decode \<circ> fields)(''__backendId'' \<mapsto> JStr (last_segment (doc_name doc))))"

definition getFirestoreDocs ::
  "js_runtime \<Rightarrow> network \<Rightarrow> http_request list \<Rightarrow> jstring \<Rightarrow> jstring \<Rightarrow> jstring
     \<Rightarrow> (jsobject list \<times> http_request list) completion" where
  "getFirestoreDocs rt net wire projectId apiKey collectionName =
     (let req = FirestoreGet projectId apiKey collectionName in
      case net wire req of
        NetError _ \<Rightarrow> Inl (NetworkError, wire @ [req])
      | Response status body \<Rightarrow>
          if status \<noteq> 200 then Inr ([], wire @ [req])
          else (case JSON_parse_listing rt body of
                  None \<Rightarrow> Inl (SyntaxError, wire @ [req])
                | Some parsed \<Rightarrow>
                    Inr (map parseFirestoreDoc
                           (case documents parsed of None \<Rightarrow> [] | Some ds \<Rightarrow> ds),
                         wire @ [req])))"

subsection \<open>String constants of the source\<close>

text \<open>
  The four placeholders (student name, date and time, subject, instructor, each in
  braces), the attendance values for completed and absent, the labels of the three
  windows (the digits 24, 3 and 1 followed by U+6642 U+9593 U+524D), the banner around the
  label (U+3010 ... U+3011 and a line feed), the template of the default settings and the
  template the renderer falls back to.
\<close>

definition PH_student_name :: jstring where
  "PH_student_name = [0x7B, 0x751F, 0x5F92, 0x540D, 0x7D]"

definition PH_datetime :: jstring where
  "PH_datetime = [0x7B, 0x65E5, 0x6642, 0x7D]"

definition PH_subject :: jstring where
  "PH_subject = [0x7B, 0x79D1, 0x76EE, 0x7D]"

definition PH_instructor :: jstring where
  "PH_instructor = [0x7B, 0x62C5, 0x5F53, 0x8B1B, 0x5E2B, 0x7D]"

definition ATT_completed :: jstring where
  "ATT_completed = [0x5B8C, 0x4E86]"

definition ATT_absent :: jstring where
  "ATT_absent = [0x6B20, 0x5E2D]"

definition LABEL_24h :: jstring where
  "LABEL_24h = [0x32, 0x34, 0x6642, 0x9593, 0x524D]"

definition LABEL_3h :: jstring where
  "LABEL_3h = [0x33, 0x6642, 0x9593, 0x524D]"

definition LABEL_1h :: jstring where
  "LABEL_1h = [0x31, 0x6642, 0x9593, 0x524D]"

definition BANNER_open :: jstring where
  "BANNER_open = [0x3010, 0x6388, 0x696D, 0x30EA, 0x30DE, 0x30A4, 0x30F3, 0x30C9, 0x20, 0x2D, 0x20]"

definition BANNER_close :: jstring where
  "BANNER_close = [0x3011, 0xA]"

definition DEFAULT_template :: jstring where
  "DEFAULT_template =
     [0x7B, 0x751F, 0x5F92, 0x540D, 0x7D, 0x3055, 0x3093, 0x3001, 0x6388, 0x696D, 0x306E,
      0x30EA, 0x30DE, 0x30A4, 0x30F3, 0x30C9, 0x3067, 0x3059, 0x3002, 0xA, 0xA, 0xD83D,
      0xDCC5, 0x20, 0x7B, 0x65E5, 0x6642, 0x7D, 0xA, 0xD83D, 0xDCDA, 0x20, 0x7B, 0x79D1,
      0x76EE, 0x7D, 0xA, 0xD83D, 0xDC68, 0x200D, 0xD83C, 0xDFEB, 0x20, 0x7B, 0x62C5, 0x5F53,
      0x8B1B, 0x5E2B, 0x7D, 0xA, 0xA, 0x3054, 0x4E88, 0x5B9A, 0x306E, 0x5909, 0x66F4, 0x304C,
      0x3042, 0x308B, 0x5834, 0x5408, 0x306F, 0x3054, 0x9023, 0x7D61, 0x304F, 0x3060, 0x3055,
      0x3044, 0x3002]"

definition FALLBACK_template :: jstring where
  "FALLBACK_template =
     [0x7B, 0x751F, 0x5F92, 0x540D, 0x7D, 0x3055, 0x3093, 0x3001, 0x6388, 0x696D, 0x30EA,
      0x30DE, 0x30A4, 0x30F3, 0x30C9, 0xA, 0xD83D, 0xDCC5, 0x7B, 0x65E5, 0x6642, 0x7D, 0xA,
      0xD83D, 0xDCDA, 0x7B, 0x79D1, 0x76EE, 0x7D]"

definition default_settings :: jsobject where
  "default_settings =
     [''remind_24h'' \<mapsto> JBool True,
      ''remind_3h'' \<mapsto> JBool True,
      ''remind_1h'' \<mapsto> JBool False,
      ''template_24h'' \<mapsto> JStr DEFAULT_template]"

subsection \<open>Window matching\<close>

text \<open>
  \<open>diffMin\<close> is \<open>Math.floor((classTime - now) / 60000)\<close>; an invalid date makes it
  \<open>NaN\<close>, here \<open>None\<close>. \<open>now\<close> is the time value of the \<open>Date\<close> the handler
  builds for the current Tokyo wall-clock time. Every comparison with \<open>NaN\<close> is false.
  Time values are whole milliseconds, so the floor is integer division; the rounding of the
  double quotient cannot move it across a band limit.
\<close>

definition classTime :: "js_runtime \<Rightarrow> jsobject \<Rightarrow> int option" where
  "classTime rt schedule =
     Date_parse rt (ToString rt (js_get schedule ''schedule_date'') @ ascii ''T'' @
                    ToString rt (js_get schedule ''schedule_time'') @ ascii '':00+09:00'')"

definition diffMin :: "js_runtime \<Rightarrow> int \<Rightarrow> jsobject \<Rightarrow> int option" where
  "diffMin rt now schedule = map_option (\<lambda>t. (t - now) div 60000) (classTime rt schedule)"

fun num_ge :: "int option \<Rightarrow> int \<Rightarrow> bool" where
  "num_ge None k = False"
| "num_ge (Some m) k = (m \<ge> k)"

fun num_le :: "int option \<Rightarrow> int \<Rightarrow> bool" where
  "num_le None k = False"
| "num_le (Some m) k = (m \<le> k)"

definition is24h :: "jsobject \<Rightarrow> int option \<Rightarrow> bool" where
  "is24h settings d = (truthy (js_get settings ''remind_24h'') \<and> num_ge d 1425 \<and> num_le d 1455)"

definition is3h :: "jsobject \<Rightarrow> int option \<Rightarrow> bool" where
  "is3h settings d = (truthy (js_get settings ''remind_3h'') \<and> num_ge d 165 \<and> num_le d 195)"

definition is1h :: "jsobject \<Rightarrow> int option \<Rightarrow> bool" where
  "is1h settings d = (truthy (js_get settings ''remind_1h'') \<and> num_ge d 45 \<and> num_le d 75)"

definition label_of :: "jsobject \<Rightarrow> int option \<Rightarrow> jstring" where
  "label_of settings d =
     (if is24h settings d then LABEL_24h else if is3h settings d then LABEL_3h else LABEL_1h)"

subsection \<open>Rendering\<close>

text \<open>
  The receiver of the first \<open>replace\<close> is \<open>settings.template_24h || '...'\<close>; a truthy
  value that is not a string has no \<open>replace\<close> method, and the call throws.
\<close>

definition dateStr :: "js_runtime \<Rightarrow> jsobject \<Rightarrow> jstring" where
  "dateStr rt schedule =
     ToString rt (js_get schedule ''schedule_date'') @ ascii '' '' @
     ToString rt (js_get schedule ''schedule_time'')"

definition fill :: "js_runtime \<Rightarrow> jstring \<Rightarrow> jsobject \<Rightarrow> jstring" where
  "fill rt template schedule =
     replace
       (replace
          (replace
             (replace template PH_student_name (ToString rt (js_get schedule ''student_name'')))
             PH_datetime (dateStr rt schedule))
          PH_subject (ToString rt (js_or (js_get schedule ''subject'') (JStr []))))
       PH_instructor (ToString rt (js_or (js_get schedule ''instructor'') (JStr [])))"

definition messageBody :: "js_runtime \<Rightarrow> jsobject \<Rightarrow> jsobject \<Rightarrow> js_error + jstring" where
  "messageBody rt settings schedule =
     (case js_or (js_get settings ''template_24h'') (JStr FALLBACK_template) of
        JStr template \<Rightarrow> Inr (fill rt template schedule)
      | _ \<Rightarrow> Inl TypeError)"

definition banner :: "jstring \<Rightarrow> jstring \<Rightarrow> jstring" where
  "banner label body = BANNER_open @ label @ BANNER_close @ body"

subsection \<open>The reminder cycle\<close>

datatype sent_entry = Sent (sent_student: jsval) (sent_label: jstring) (lineStatus: int)

datatype skipped_entry = Skipped jsval "int option"

record cycle =
  sent :: "sent_entry list"
  skipped :: "skipped_entry list"
  wire :: "http_request list"

text \<open>The two \<open>continue\<close> guards at the head of the loop body.\<close>

definition excluded :: "jsobject \<Rightarrow> bool" where
  "excluded schedule =
     ((\<not> truthy (js_get schedule ''schedule_date'') \<or>
       \<not> truthy (js_get schedule ''schedule_time'') \<or>
       \<not> truthy (js_get schedule ''student_name'')) \<or>
      (js_get schedule ''attendance'' = JStr ATT_completed \<or>
       js_get schedule ''attendance'' = JStr ATT_absent))"

definition find_student :: "jsobject list \<Rightarrow> jsobject \<Rightarrow> jsobject option" where
  "find_student students schedule =
     List.find (\<lambda>s. js_get s ''student_name'' = js_get schedule ''student_name'') students"

text \<open>One pass through the body of \<open>for (const schedule of schedules)\<close>.\<close>

definition remind ::
  "js_runtime \<Rightarrow> network \<Rightarrow> jsobject \<Rightarrow> jsobject list \<Rightarrow> jstring \<Rightarrow> int
     \<Rightarrow> cycle \<Rightarrow> jsobject \<Rightarrow> cycle completion" where
  "remind rt net settings students lineToken now st schedule =
     (if excluded schedule then Inr st
      else
        let d = diffMin rt now schedule in
        if \<not> is24h settings d \<and> \<not> is3h settings d \<and> \<not> is1h settings d
        then Inr (st\<lparr>skipped := skipped st @ [Skipped (js_get schedule ''student_name'') d]\<rparr>)
        else
          (case find_student students schedule of
             None \<Rightarrow> Inr st
           | Some student \<Rightarrow>
               if \<not> truthy (js_get student ''student_line_id'') then Inr st
               else
                 (case messageBody rt settings schedule of
                    Inl e \<Rightarrow> Inl (e, wire st)
                  | Inr body \<Rightarrow>
                      (let req = LinePush (js_get student ''student_line_id'')
                                   (banner (label_of settings d) body) lineToken
                       in case net (wire st) req of
                            NetError _ \<Rightarrow> Inl (NetworkError, wire st @ [req])
                          | Response status _ \<Rightarrow>
                              Inr (st\<lparr>sent := sent st @
                                          [Sent (js_get schedule ''student_name'')
                                                (label_of settings d) status],
                                       wire := wire st @ [req]\<rparr>)))))"

fun for_schedules ::
  "js_runtime \<Rightarrow> network \<Rightarrow> jsobject \<Rightarrow> jsobject list \<Rightarrow> jstring \<Rightarrow> int
     \<Rightarrow> cycle \<Rightarrow> jsobject list \<Rightarrow> cycle completion" where
  "for_schedules rt net settings students lineToken now st [] = Inr st"
| "for_schedules rt net settings students lineToken now st (schedule # rest) =
     (case remind rt net settings students lineToken now st schedule of
        Inl e \<Rightarrow> Inl e
      | Inr st' \<Rightarrow> for_schedules rt net settings students lineToken now st' rest)"

record environment =
  LINE_CHANNEL_ACCESS_TOKEN :: "jstring option"
  FIREBASE_PROJECT_ID :: "jstring option"
  FIREBASE_WEB_API_KEY :: "jstring option"

fun unset :: "jstring option \<Rightarrow> bool" where
  "unset None = True"
| "unset (Some s) = (s = [])"

datatype cr_payload =
    MissingEnv "string list"
  | Summary (summary_sent: "sent_entry list") (skippedCount: nat) (checkedAt: int)

datatype cr_response = CrResponse (cr_statusCode: int) (cr_body: cr_payload)

definition has_type :: "string \<Rightarrow> jsobject \<Rightarrow> bool" where
  "has_type t d = (js_get d ''type'' = JStr (ascii t))"

definition settings_of :: "jsobject list \<Rightarrow> jsobject" where
  "settings_of allData =
     (case List.find (has_type ''reminder_settings'') allData of
        None \<Rightarrow> default_settings
      | Some s \<Rightarrow> s)"

text \<open>
  \<open>exports.handler\<close> of check-reminders.js. The summary's \<open>message\<close> only repeats the
  length of \<open>sent\<close>; console output is left out.
\<close>

definition check_reminders_handler ::
  "js_runtime \<Rightarrow> network \<Rightarrow> environment \<Rightarrow> int
     \<Rightarrow> (cr_response \<times> http_request list) completion" where
  "check_reminders_handler rt net env now =
     (let lineToken = LINE_CHANNEL_ACCESS_TOKEN env;
          projectId = FIREBASE_PROJECT_ID env;
          apiKey = FIREBASE_WEB_API_KEY env
      in
      if unset lineToken \<or> unset projectId \<or> unset apiKey
      then Inr (CrResponse 500
                  (MissingEnv ((if unset lineToken then [''LINE_CHANNEL_ACCESS_TOKEN''] else []) @
                               (if unset projectId then [''FIREBASE_PROJECT_ID''] else []) @
                               (if unset apiKey then [''FIREBASE_WEB_API_KEY''] else []))),
                [])
      else
        (case getFirestoreDocs rt net [] (the projectId) (the apiKey) (ascii ''system_data'') of
           Inl e \<Rightarrow> Inl e
         | Inr (allData, w) \<Rightarrow>
             (let schedules = filter (has_type ''schedule'') allData;
                  students = filter (has_type ''student'') allData;
                  settings = settings_of allData
              in case for_schedules rt net settings students (the lineToken) now
                        \<lparr>sent = [], skipped = [], wire = w\<rparr> schedules of
                   Inl e \<Rightarrow> Inl e
                 | Inr st \<Rightarrow>
                     Inr (CrResponse 200 (Summary (sent st) (length (skipped st)) now),
                          wire st))))"

section \<open>send-reminder\<close>

record sr_event =
  httpMethod :: jstring
  event_body :: "jstring option"

datatype sr_request = PushMessage json json jstring

type_synonym sr_network = "sr_request list \<Rightarrow> sr_request \<Rightarrow> http_result"

datatype push_status = Success | Error jstring

datatype push_result = PushResult (result_userId: json) (result_status: push_status)

datatype sr_payload =
    MethodNotAllowed
  | TokenNotSet
  | InvalidJSON
  | BadRequest
  | Results "push_result list"

datatype sr_response = SrResponse int sr_payload

fun json_truthy :: "json \<Rightarrow> bool" where
  "json_truthy JsNull = False"
| "json_truthy (JsBool b) = b"
| "json_truthy (JsNum q) = (q \<noteq> 0)"
| "json_truthy (JsStr s) = (s \<noteq> [])"
| "json_truthy (JsArr xs) = True"
| "json_truthy (JsObj kvs) = True"

text \<open>
  \<open>pushMessage\<close> resolves only on status 200; any other status and a transport error
  reject, and the \<open>catch\<close> of the loop records the error's message.
\<close>

definition pushMessage :: "js_runtime \<Rightarrow> http_result \<Rightarrow> push_status" where
  "pushMessage rt res =
     (case res of
        NetError msg \<Rightarrow> Error msg
      | Response statusCode body \<Rightarrow>
          if statusCode = 200 then Success
          else Error (ascii ''LINE API error: '' @ Number_toString rt (of_int statusCode) @
                      ascii '' '' @ body))"

fun for_userIds ::
  "js_runtime \<Rightarrow> sr_network \<Rightarrow> json \<Rightarrow> jstring \<Rightarrow> push_result list \<times> sr_request list
     \<Rightarrow> json list \<Rightarrow> push_result list \<times> sr_request list" where
  "for_userIds rt net message accessToken (results, reqs) [] = (results, reqs)"
| "for_userIds rt net message accessToken (results, reqs) (uid # rest) =
     (let req = PushMessage uid message accessToken
      in for_userIds rt net message accessToken
           (results @ [PushResult uid (pushMessage rt (net reqs req))], reqs @ [req]) rest)"

text \<open>
  \<open>const { userIds, message } = body\<close>: destructuring \<open>null\<close> throws, a value that is
  not an object has neither property.
\<close>

fun destructure :: "json \<Rightarrow> js_error + (json option \<times> json option)" where
  "destructure JsNull = Inl TypeError"
| "destructure (JsObj kvs) = Inr (map_of kvs ''userIds'', map_of kvs ''message'')"
| "destructure _ = Inr (None, None)"

text \<open>
  \<open>exports.handler\<close> of send-reminder.js. A request without a body has \<open>event.body\<close>
  \<open>null\<close>, which \<open>JSON.parse\<close> turns into \<open>null\<close>.
\<close>

definition send_reminder_handler ::
  "js_runtime \<Rightarrow> sr_network \<Rightarrow> jstring option \<Rightarrow> sr_event
     \<Rightarrow> (js_error \<times> sr_request list) + (sr_response \<times> sr_request list)" where
  "send_reminder_handler rt net accessToken event =
     (if httpMethod event \<noteq> ascii ''POST'' then Inr (SrResponse 405 MethodNotAllowed, [])
      else if unset accessToken then Inr (SrResponse 500 TokenNotSet, [])
      else
        (case (case event_body event of None \<Rightarrow> Some JsNull | Some b \<Rightarrow> JSON_parse rt b) of
           None \<Rightarrow> Inr (SrResponse 400 InvalidJSON, [])
         | Some body \<Rightarrow>
             (case destructure body of
                Inl e \<Rightarrow> Inl (e, [])
              | Inr (Some (JsArr userIds), Some message) \<Rightarrow>
                  if \<not> json_truthy message then Inr (SrResponse 400 BadRequest, [])
                  else
                    (case for_userIds rt net message (the accessToken) ([], []) userIds of
                       (results, reqs) \<Rightarrow> Inr (SrResponse 200 (Results results), reqs))
              | Inr _ \<Rightarrow> Inr (SrResponse 400 BadRequest, []))))"

section \<open>Notions of the specification\<close>

text \<open>
  A tolerance band as the specification words it: \<open>diffMinutes\<close> lies in
  \<open>[offset - 15, offset + 15]\<close>, both ends included.
\<close>

definition in_band :: "int option \<Rightarrow> int \<Rightarrow> bool" where
  "in_band d offset = (case d of None \<Rightarrow> False | Some m \<Rightarrow> offset - 15 \<le> m \<and> m \<le> offset + 15)"

text \<open>The three reminder windows in their priority order, and the first due one.\<close>

datatype window = TwentyFourHour | ThreeHour | OneHour

fun window_due :: "jsobject \<Rightarrow> int option \<Rightarrow> window \<Rightarrow> bool" where
  "window_due settings d TwentyFourHour = is24h settings d"
| "window_due settings d ThreeHour = is3h settings d"
| "window_due settings d OneHour = is1h settings d"

fun window_label :: "window \<Rightarrow> jstring" where
  "window_label TwentyFourHour = LABEL_24h"
| "window_label ThreeHour = LABEL_3h"
| "window_label OneHour = LABEL_1h"

definition first_due :: "jsobject \<Rightarrow> int option \<Rightarrow> window option" where
  "first_due settings d = List.find (window_due settings d) [TwentyFourHour, ThreeHour, OneHour]"

text \<open>A field that is empty or missing: not there, \<open>null\<close>, or the empty string.\<close>

definition empty_or_missing :: "jsval \<Rightarrow> bool" where
  "empty_or_missing v = (v = JUndef \<or> v = JNull \<or> v = JStr [])"

text \<open>
  Putting a value in the place of the first occurrence of a placeholder, the value taken
  as it is.
\<close>

fun substitute_first :: "jstring \<Rightarrow> jstring \<Rightarrow> jstring \<Rightarrow> jstring" where
  "substitute_first [] ph v = []"
| "substitute_first (c # cs) ph v =
     (if prefix ph (c # cs) then v @ drop (length ph) (c # cs)
      else c # substitute_first cs ph v)"

definition render :: "js_runtime \<Rightarrow> jstring \<Rightarrow> jsobject \<Rightarrow> jstring" where
  "render rt template schedule =
     substitute_first
       (substitute_first
          (substitute_first
             (substitute_first template PH_student_name
                (ToString rt (js_get schedule ''student_name'')))
             PH_datetime (dateStr rt schedule))
          PH_subject (ToString rt (js_or (js_get schedule ''subject'') (JStr []))))
       PH_instructor (ToString rt (js_or (js_get schedule ''instructor'') (JStr [])))"

text \<open>
  Conditions of the loop body, named: a window is due for the schedule; the schedule has
  no recipient (no student of that name, or the first such student has no LINE id).
\<close>

definition due :: "js_runtime \<Rightarrow> int \<Rightarrow> jsobject \<Rightarrow> jsobject \<Rightarrow> bool" where
  "due rt now settings schedule =
     (is24h settings (diffMin rt now schedule) \<or> is3h settings (diffMin rt now schedule) \<or>
      is1h settings (diffMin rt now schedule))"

definition no_recipient :: "jsobject list \<Rightarrow> jsobject \<Rightarrow> bool" where
  "no_recipient students schedule =
     (case find_student students schedule of
        None \<Rightarrow> True
      | Some student \<Rightarrow> \<not> truthy (js_get student ''student_line_id''))"

definition unreached :: "js_runtime \<Rightarrow> int \<Rightarrow> jsobject \<Rightarrow> jsobject list \<Rightarrow> jsobject \<Rightarrow> bool" where
  "unreached rt now settings students schedule =
     (\<not> excluded schedule \<and> due rt now settings schedule \<and> no_recipient students schedule)"

section \<open>Example data\<close>

text \<open>
  A runtime for the examples: integers print in decimal, the date parser knows the class
  time of the examples (10:00 on 10 June 2024 in Tokyo), \<open>JSON.parse\<close> knows the two
  bodies below.
\<close>

fun decimal :: "nat \<Rightarrow> jstring" where
  "decimal n = (if n < 10 then [of_nat (48 + n)] else decimal (n div 10) @ [of_nat (48 + n mod 10)])"

definition doc_schedule_aoi :: fs_doc where
  "doc_schedule_aoi =
     FsDoc (ascii ''projects/p/databases/(default)/documents/system_data/s1'')
       (Some [''type'' \<mapsto> StringValue (ascii ''schedule''),
              ''student_name'' \<mapsto> StringValue (ascii ''Aoi''),
              ''schedule_date'' \<mapsto> StringValue (ascii ''2024-06-10''),
              ''schedule_time'' \<mapsto> StringValue (ascii ''10:00''),
              ''subject'' \<mapsto> StringValue (ascii ''Math'')])"

definition doc_schedule_ren :: fs_doc where
  "doc_schedule_ren =
     FsDoc (ascii ''projects/p/databases/(default)/documents/system_data/s2'')
       (Some [''type'' \<mapsto> StringValue (ascii ''schedule''),
              ''student_name'' \<mapsto> StringValue (ascii ''Ren''),
              ''schedule_date'' \<mapsto> StringValue (ascii ''2024-06-10''),
              ''schedule_time'' \<mapsto> StringValue (ascii ''10:00''),
              ''subject'' \<mapsto> StringValue (ascii ''Art'')])"

definition doc_schedule_sora :: fs_doc where
  "doc_schedule_sora =
     FsDoc (ascii ''projects/p/databases/(default)/documents/system_data/s3'')
       (Some [''type'' \<mapsto> StringValue (ascii ''schedule''),
              ''student_name'' \<mapsto> StringValue (ascii ''Sora''),
              ''schedule_date'' \<mapsto> StringValue (ascii ''2024-06-10''),
              ''schedule_time'' \<mapsto> StringValue (ascii ''10:00''),
              ''subject'' \<mapsto> StringValue (ascii ''Art'')])"

definition doc_student_aoi :: fs_doc where
  "doc_student_aoi =
     FsDoc (ascii ''projects/p/databases/(default)/documents/system_data/u1'')
       (Some [''type'' \<mapsto> StringValue (ascii ''student''),
              ''student_name'' \<mapsto> StringValue (ascii ''Aoi''),
              ''student_line_id'' \<mapsto> StringValue (ascii ''Uaoi'')])"

definition doc_student_ren :: fs_doc where
  "doc_student_ren =
     FsDoc (ascii ''projects/p/databases/(default)/documents/system_data/u2'')
       (Some [''type'' \<mapsto> StringValue (ascii ''student''),
              ''student_name'' \<mapsto> StringValue (ascii ''Ren'')])"

definition doc_student_sora :: fs_doc where
  "doc_student_sora =
     FsDoc (ascii ''projects/p/databases/(default)/documents/system_data/u3'')
       (Some [''type'' \<mapsto> StringValue (ascii ''student''),
              ''student_name'' \<mapsto> StringValue (ascii ''Sora''),
              ''student_line_id'' \<mapsto> StringValue (ascii ''Usora'')])"

definition listing_body :: jstring where
  \<open>listing_body = ascii (
     ''{"documents":['' @
     ''{"name":"projects/p/databases/(default)/documents/system_data/s1","fields":{'' @
       ''"type":{"stringValue":"schedule"},"student_name":{"stringValue":"Aoi"},'' @
       ''"schedule_date":{"stringValue":"2024-06-10"},'' @
       ''"schedule_time":{"stringValue":"10:00"},"subject":{"stringValue":"Math"}}},'' @
     ''{"name":"projects/p/databases/(default)/documents/system_data/s2","fields":{'' @
       ''"type":{"stringValue":"schedule"},"student_name":{"stringValue":"Ren"},'' @
       ''"schedule_date":{"stringValue":"2024-06-10"},'' @
       ''"schedule_time":{"stringValue":"10:00"},"subject":{"stringValue":"Art"}}},'' @
     ''{"name":"projects/p/databases/(default)/documents/system_data/s3","fields":{'' @
       ''"type":{"stringValue":"schedule"},"student_name":{"stringValue":"Sora"},'' @
       ''"schedule_date":{"stringValue":"2024-06-10"},'' @
       ''"schedule_time":{"stringValue":"10:00"},"subject":{"stringValue":"Art"}}},'' @
     ''{"name":"projects/p/databases/(default)/documents/system_data/u1","fields":{'' @
       ''"type":{"stringValue":"student"},"student_name":{"stringValue":"Aoi"},'' @
       ''"student_line_id":{"stringValue":"Uaoi"}}},'' @
     ''{"name":"projects/p/databases/(default)/documents/system_data/u2","fields":{'' @
       ''"type":{"stringValue":"student"},"student_name":{"stringValue":"Ren"}}},'' @
     ''{"name":"projects/p/databases/(default)/documents/system_data/u3","fields":{'' @
       ''"type":{"stringValue":"student"},"student_name":{"stringValue":"Sora"},'' @
       ''"student_line_id":{"stringValue":"Usora"}}}]}'')\<close>

definition broadcast_body :: jstring where
  \<open>broadcast_body = ascii ''{"userIds":["U1","U2","U3"],"message":"hello"}''\<close>

definition example_runtime :: js_runtime where
  "example_runtime =
     \<lparr>Number_toString = (\<lambda>q. (if q < 0 then ascii ''-'' else []) @ decimal (nat \<lfloor>\<bar>q\<bar>\<rfloor>)),
      Date_parse = (\<lambda>s. if s = ascii ''2024-06-10T10:00:00+09:00''
                          then Some 1717981200000 else None),
      JSON_parse_listing = (\<lambda>b. if b = listing_body
                          then Some (Listing (Some [doc_schedule_aoi, doc_schedule_ren,
                                                    doc_schedule_sora, doc_student_aoi,
                                                    doc_student_ren, doc_student_sora]))
                          else None),
      JSON_parse = (\<lambda>b. if b = broadcast_body
                          then Some (JsObj [(''userIds'',
                                               JsArr [JsStr (ascii ''U1''), JsStr (ascii ''U2''),
                                                      JsStr (ascii ''U3'')]),
                                            (''message'', JsStr (ascii ''hello''))])
                          else None)\<rparr>"

definition schedule_aoi :: jsobject where
  "schedule_aoi = parseFirestoreDoc doc_schedule_aoi"

definition schedule_ren :: jsobject where
  "schedule_ren = parseFirestoreDoc doc_schedule_ren"

definition schedule_sora :: jsobject where
  "schedule_sora = parseFirestoreDoc doc_schedule_sora"

definition student_aoi :: jsobject where
  "student_aoi = parseFirestoreDoc doc_student_aoi"

definition student_ren :: jsobject where
  "student_ren = parseFirestoreDoc doc_student_ren"

definition student_sora :: jsobject where
  "student_sora = parseFirestoreDoc doc_student_sora"

text \<open>
  The reminders the default template gives for Aoi and for Sora in the 24-hour window,
  banner included.
\<close>

definition aoi_message :: jstring where
  "aoi_message =
     [0x3010, 0x6388, 0x696D, 0x30EA, 0x30DE, 0x30A4, 0x30F3, 0x30C9, 0x20, 0x2D, 0x20,
      0x32, 0x34, 0x6642, 0x9593, 0x524D, 0x3011, 0xA, 0x41, 0x6F, 0x69, 0x3055, 0x3093,
      0x3001, 0x6388, 0x696D, 0x306E, 0x30EA, 0x30DE, 0x30A4, 0x30F3, 0x30C9, 0x3067,
      0x3059, 0x3002, 0xA, 0xA, 0xD83D, 0xDCC5, 0x20, 0x32, 0x30, 0x32, 0x34, 0x2D, 0x30,
      0x36, 0x2D, 0x31, 0x30, 0x20, 0x31, 0x30, 0x3A, 0x30, 0x30, 0xA, 0xD83D, 0xDCDA, 0x20,
      0x4D, 0x61, 0x74, 0x68, 0xA, 0xD83D, 0xDC68, 0x200D, 0xD83C, 0xDFEB, 0x20, 0xA, 0xA,
      0x3054, 0x4E88, 0x5B9A, 0x306E, 0x5909, 0x66F4, 0x304C, 0x3042, 0x308B, 0x5834,
      0x5408, 0x306F, 0x3054, 0x9023, 0x7D61, 0x304F, 0x3060, 0x3055, 0x3044, 0x3002]"

definition sora_message :: jstring where
  "sora_message =
     [0x3010, 0x6388, 0x696D, 0x30EA, 0x30DE, 0x30A4, 0x30F3, 0x30C9, 0x20, 0x2D, 0x20,
      0x32, 0x34, 0x6642, 0x9593, 0x524D, 0x3011, 0xA, 0x53, 0x6F, 0x72, 0x61, 0x3055,
      0x3093, 0x3001, 0x6388, 0x696D, 0x306E, 0x30EA, 0x30DE, 0x30A4, 0x30F3, 0x30C9,
      0x3067, 0x3059, 0x3002, 0xA, 0xA, 0xD83D, 0xDCC5, 0x20, 0x32, 0x30, 0x32, 0x34, 0x2D,
      0x30, 0x36, 0x2D, 0x31, 0x30, 0x20, 0x31, 0x30, 0x3A, 0x30, 0x30, 0xA, 0xD83D, 0xDCDA,
      0x20, 0x41, 0x72, 0x74, 0xA, 0xD83D, 0xDC68, 0x200D, 0xD83C, 0xDFEB, 0x20, 0xA, 0xA,
      0x3054, 0x4E88, 0x5B9A, 0x306E, 0x5909, 0x66F4, 0x304C, 0x3042, 0x308B, 0x5834,
      0x5408, 0x306F, 0x3054, 0x9023, 0x7D61, 0x304F, 0x3060, 0x3055, 0x3044, 0x3002]"

text \<open>Two instants: 1435 and 1560 minutes before the class.\<close>

definition now_in_band :: int where
  "now_in_band = 1717895100000"

definition now_too_early :: int where
  "now_too_early = 1717887600000"

definition example_env :: environment where
  "example_env =
     \<lparr>LINE_CHANNEL_ACCESS_TOKEN = Some (ascii ''token''),
      FIREBASE_PROJECT_ID = Some (ascii ''p''),
      FIREBASE_WEB_API_KEY = Some (ascii ''key'')\<rparr>"

text \<open>
  Aoi and Sora have a LINE id, Ren has none. Networks: Firestore serves
  \<open>listing_body\<close> and LINE accepts every push; LINE answers 500 to the push for Aoi;
  the connection to LINE breaks on the push for Aoi; Firestore answers 403; the connection
  to Firestore breaks.
\<close>

fun net_ok :: network where
  "net_ok _ (FirestoreGet _ _ _) = Response 200 listing_body"
| "net_ok _ (LinePush _ _ _) = Response 200 (ascii ''{}'')"

fun net_line_500 :: network where
  "net_line_500 _ (FirestoreGet _ _ _) = Response 200 listing_body"
| "net_line_500 _ (LinePush to _ _) =
     (if to = JStr (ascii ''Uaoi'') then Response 500 (ascii ''{}'') else Response 200 (ascii ''{}''))"

fun net_line_down :: network where
  "net_line_down _ (FirestoreGet _ _ _) = Response 200 listing_body"
| "net_line_down _ (LinePush to _ _) =
     (if to = JStr (ascii ''Uaoi'') then NetError (ascii ''socket hang up'')
      else Response 200 (ascii ''{}''))"

fun net_firestore_403 :: network where
  "net_firestore_403 _ _ = Response 403 (ascii ''{}'')"

fun net_firestore_down :: network where
  "net_firestore_down _ _ = NetError (ascii ''getaddrinfo ENOTFOUND'')"

text \<open>A broadcast to three recipients in which LINE refuses the second.\<close>

definition broadcast_event :: sr_event where
  "broadcast_event = \<lparr>httpMethod = ascii ''POST'', event_body = Some broadcast_body\<rparr>"

fun sr_net_u2_fails :: sr_network where
  "sr_net_u2_fails _ (PushMessage to _ _) =
     (if to = JsStr (ascii ''U2'') then Response 400 (ascii ''bad'') else Response 200 (ascii ''{}''))"

section \<open>Properties of the window matcher\<close>

lemma diffMin_floor:
  "diffMin rt now schedule =
     map_option (\<lambda>t. \<lfloor>real_of_int (t - now) / 60000\<rfloor>) (classTime rt schedule)"
proof -
  have "\<lfloor>real_of_int k / 60000\<rfloor> = k div 60000" for k :: int
    using floor_divide_of_int_eq [of k 60000, where ?'a = real] by simp
  then show ?thesis by (simp add: diffMin_def del: of_int_diff)
qed

lemma is24h_band: "truthy (js_get settings ''remind_24h'') \<Longrightarrow> is24h settings d = in_band d 1440"
  by (cases d) (auto simp: is24h_def in_band_def)

lemma is3h_band: "truthy (js_get settings ''remind_3h'') \<Longrightarrow> is3h settings d = in_band d 180"
  by (cases d) (auto simp: is3h_def in_band_def)

lemma is1h_band: "truthy (js_get settings ''remind_1h'') \<Longrightarrow> is1h settings d = in_band d 60"
  by (cases d) (auto simp: is1h_def in_band_def)

lemma not_enabled: 
  "\<not> truthy (js_get settings ''remind_24h'') \<Longrightarrow> \<not> is24h settings d"
  "\<not> truthy (js_get settings ''remind_3h'') \<Longrightarrow> \<not> is3h settings d"
  "\<not> truthy (js_get settings ''remind_1h'') \<Longrightarrow> \<not> is1h settings d"
  by (simp_all add: is24h_def is3h_def is1h_def)

text \<open>
  Claim C1. With the 24-hour flag enabled, \<open>is24h\<close> holds exactly when
  \<open>diffMin = floor((classTime - now) / 60000)\<close> lies in \<open>[1425, 1455]\<close>; likewise
  \<open>[165, 195]\<close> for the 3-hour and \<open>[45, 75]\<close> for the 1-hour window. A schedule that
  passes the guards and whose \<open>diffMin\<close> lies in no enabled band (an invalid date
  included) has no window due, and the loop body appends it to \<open>skipped\<close>.
\<close>

theorem window_bands:
  "diffMin rt now schedule =
     map_option (\<lambda>t. \<lfloor>real_of_int (t - now) / 60000\<rfloor>) (classTime rt schedule) \<and>
   (truthy (js_get settings ''remind_24h'') \<longrightarrow> is24h settings d = in_band d 1440) \<and>
   (truthy (js_get settings ''remind_3h'') \<longrightarrow> is3h settings d = in_band d 180) \<and>
   (truthy (js_get settings ''remind_1h'') \<longrightarrow> is1h settings d = in_band d 60) \<and>
   (\<not> excluded schedule \<and>
    (truthy (js_get settings ''remind_24h'') \<longrightarrow> \<not> in_band (diffMin rt now schedule) 1440) \<and>
    (truthy (js_get settings ''remind_3h'') \<longrightarrow> \<not> in_band (diffMin rt now schedule) 180) \<and>
    (truthy (js_get settings ''remind_1h'') \<longrightarrow> \<not> in_band (diffMin rt now schedule) 60) \<longrightarrow>
      \<not> is24h settings (diffMin rt now schedule) \<and>
      \<not> is3h settings (diffMin rt now schedule) \<and>
      \<not> is1h settings (diffMin rt now schedule) \<and>
      remind rt net settings students lineToken now st schedule =
        Inr (st\<lparr>skipped := skipped st @
               [Skipped (js_get schedule ''student_name'') (diffMin rt now schedule)]\<rparr>))"
proof (intro conjI impI)
  show "diffMin rt now schedule =
     map_option (\<lambda>t. \<lfloor>real_of_int (t - now) / 60000\<rfloor>) (classTime rt schedule)"
    by (rule diffMin_floor)
next
  assume a: "\<not> excluded schedule \<and>
    (truthy (js_get settings ''remind_24h'') \<longrightarrow> \<not> in_band (diffMin rt now schedule) 1440) \<and>
    (truthy (js_get settings ''remind_3h'') \<longrightarrow> \<not> in_band (diffMin rt now schedule) 180) \<and>
    (truthy (js_get settings ''remind_1h'') \<longrightarrow> \<not> in_band (diffMin rt now schedule) 60)"
  show n24: "\<not> is24h settings (diffMin rt now schedule)"
    using a is24h_band not_enabled(1) by blast
  show n3: "\<not> is3h settings (diffMin rt now schedule)"
    using a is3h_band not_enabled(2) by blast
  show n1: "\<not> is1h settings (diffMin rt now schedule)"
    using a is1h_band not_enabled(3) by blast
  from a n24 n3 n1 show "remind rt net settings students lineToken now st schedule =
        Inr (st\<lparr>skipped := skipped st @
               [Skipped (js_get schedule ''student_name'') (diffMin rt now schedule)]\<rparr>)"
    by (simp add: remind_def)
qed (simp_all add: is24h_band is3h_band is1h_band)

lemma schedule_aoi_fields:
  "js_get schedule_aoi ''schedule_date'' = JStr (ascii ''2024-06-10'')"
  "js_get schedule_aoi ''schedule_time'' = JStr (ascii ''10:00'')"
  "js_get schedule_aoi ''student_name'' = JStr (ascii ''Aoi'')"
  "js_get schedule_aoi ''subject'' = JStr (ascii ''Math'')"
  "js_get schedule_aoi ''instructor'' = JUndef"
  "js_get schedule_aoi ''attendance'' = JUndef"
  "js_get schedule_aoi ''type'' = JStr (ascii ''schedule'')"
  by (simp_all add: schedule_aoi_def doc_schedule_aoi_def parseFirestoreDoc_def js_get_def)

lemma default_settings_fields:
  "js_get default_settings ''remind_24h'' = JBool True"
  "js_get default_settings ''remind_3h'' = JBool True"
  "js_get default_settings ''remind_1h'' = JBool False"
  "js_get default_settings ''template_24h'' = JStr DEFAULT_template"
  by (simp_all add: default_settings_def js_get_def)

lemma schedule_aoi_not_excluded: "\<not> excluded schedule_aoi"
  by (simp add: excluded_def schedule_aoi_fields ascii_def)

lemma classTime_aoi: "classTime example_runtime schedule_aoi = Some 1717981200000"
  by (simp add: classTime_def schedule_aoi_fields example_runtime_def ascii_def)

lemma diffMin_aoi_early: "diffMin example_runtime now_too_early schedule_aoi = Some 1560"
  by (simp add: diffMin_def classTime_aoi now_too_early_def)

lemma diffMin_aoi_in_band: "diffMin example_runtime now_in_band schedule_aoi = Some 1435"
  by (simp add: diffMin_def classTime_aoi now_in_band_def)

theorem window_bands_witness:
  "is24h (default_settings(''remind_1h'' \<mapsto> JBool True)) (Some 1425) \<and>
   is24h (default_settings(''remind_1h'' \<mapsto> JBool True)) (Some 1455) \<and>
   \<not> is24h (default_settings(''remind_1h'' \<mapsto> JBool True)) (Some 1424) \<and>
   \<not> is24h (default_settings(''remind_1h'' \<mapsto> JBool True)) (Some 1456) \<and>
   is3h (default_settings(''remind_1h'' \<mapsto> JBool True)) (Some 165) \<and>
   is3h (default_settings(''remind_1h'' \<mapsto> JBool True)) (Some 195) \<and>
   \<not> is3h (default_settings(''remind_1h'' \<mapsto> JBool True)) (Some 164) \<and>
   \<not> is3h (default_settings(''remind_1h'' \<mapsto> JBool True)) (Some 196) \<and>
   is1h (default_settings(''remind_1h'' \<mapsto> JBool True)) (Some 45) \<and>
   is1h (default_settings(''remind_1h'' \<mapsto> JBool True)) (Some 75) \<and>
   \<not> is1h (default_settings(''remind_1h'' \<mapsto> JBool True)) (Some 44) \<and>
   \<not> is1h (default_settings(''remind_1h'' \<mapsto> JBool True)) (Some 76) \<and>
   diffMin example_runtime now_too_early schedule_aoi = Some 1560 \<and>
   remind example_runtime net_ok (default_settings(''remind_1h'' \<mapsto> JBool True)) [student_aoi]
       (ascii ''token'') now_too_early \<lparr>sent = [], skipped = [], wire = []\<rparr> schedule_aoi =
     Inr \<lparr>sent = [], skipped = [Skipped (JStr (ascii ''Aoi'')) (Some 1560)], wire = []\<rparr>"
proof -
  define settings where "settings = default_settings(''remind_1h'' \<mapsto> JBool True)"
  have flags: "truthy (js_get settings ''remind_24h'')" "truthy (js_get settings ''remind_3h'')"
    "truthy (js_get settings ''remind_1h'')"
    by (simp_all add: settings_def default_settings_def js_get_def)
  note w = window_bands [of example_runtime now_too_early schedule_aoi settings _ net_ok
             "[student_aoi]" "ascii ''token''" "\<lparr>sent = [], skipped = [], wire = []\<rparr>",
             THEN conjunct2]
  have b24: "is24h settings d = in_band d 1440" for d
    using w [of d] flags by blast
  have b3: "is3h settings d = in_band d 180" for d
    using w [of d] flags by blast
  have b1: "is1h settings d = in_band d 60" for d
    using w [of d] flags by blast
  have out: "\<not> in_band (diffMin example_runtime now_too_early schedule_aoi) 1440"
    "\<not> in_band (diffMin example_runtime now_too_early schedule_aoi) 180"
    "\<not> in_band (diffMin example_runtime now_too_early schedule_aoi) 60"
    by (simp_all add: diffMin_aoi_early in_band_def)
  from w [of None] schedule_aoi_not_excluded out
  have "remind example_runtime net_ok settings [student_aoi] (ascii ''token'') now_too_early
          \<lparr>sent = [], skipped = [], wire = []\<rparr> schedule_aoi =
        Inr (\<lparr>sent = [], skipped = [], wire = []\<rparr>\<lparr>skipped := skipped \<lparr>sent = [], skipped = [], wire = []\<rparr> @
               [Skipped (js_get schedule_aoi ''student_name'')
                  (diffMin example_runtime now_too_early schedule_aoi)]\<rparr>)"
    by blast
  then have "remind example_runtime net_ok settings [student_aoi] (ascii ''token'') now_too_early
          \<lparr>sent = [], skipped = [], wire = []\<rparr> schedule_aoi =
        Inr \<lparr>sent = [], skipped = [Skipped (JStr (ascii ''Aoi'')) (Some 1560)], wire = []\<rparr>"
    by (simp add: schedule_aoi_fields diffMin_aoi_early)
  then show ?thesis
    unfolding settings_def [symmetric] by (simp add: b24 b3 b1 in_band_def diffMin_aoi_early)
qed

lemma windows_exclusive:
  "\<not> (is24h settings d \<and> is3h settings d)"
  "\<not> (is24h settings d \<and> is1h settings d)"
  "\<not> (is3h settings d \<and> is1h settings d)"
  by (cases d; simp add: is24h_def is3h_def is1h_def)+

text \<open>
  Claim C3. Whatever \<open>diffMin\<close> and the enabled flags are, no two of \<open>is24h\<close>,
  \<open>is3h\<close> and \<open>is1h\<close> hold together; and when some window is due, the label the
  handler picks is that of the first due window in the order 24h, 3h, 1h, which is the
  only due window.
\<close>

theorem windows_mutually_exclusive:
  "\<not> (is24h settings d \<and> is3h settings d) \<and>
   \<not> (is24h settings d \<and> is1h settings d) \<and>
   \<not> (is3h settings d \<and> is1h settings d) \<and>
   (first_due settings d = None) = (\<not> is24h settings d \<and> \<not> is3h settings d \<and> \<not> is1h settings d) \<and>
   (\<forall>w. first_due settings d = Some w \<longrightarrow>
        label_of settings d = window_label w \<and>
        (\<forall>w'. window_due settings d w' = (w' = w)))"
proof -
  note ex = windows_exclusive [of settings d]
  have none: "(first_due settings d = None) =
      (\<not> is24h settings d \<and> \<not> is3h settings d \<and> \<not> is1h settings d)"
    by (simp add: first_due_def)
  have some: "label_of settings d = window_label w \<and> (\<forall>w'. window_due settings d w' = (w' = w))"
    if "first_due settings d = Some w" for w
  proof -
    from that have w: "window_due settings d w"
      by (auto simp: first_due_def split: if_splits)
    have uniq: "window_due settings d w' = (w' = w)" for w'
      using w ex by (cases w; cases w'; auto)
    from w ex have "label_of settings d = window_label w"
      by (cases w; auto simp: label_of_def)
    with uniq show ?thesis by blast
  qed
  from ex none some show ?thesis by blast
qed

theorem windows_mutually_exclusive_witness:
  "first_due default_settings (Some 1435) = Some TwentyFourHour \<and>
   label_of default_settings (Some 1435) = LABEL_24h \<and>
   \<not> is3h default_settings (Some 1435) \<and> \<not> is1h default_settings (Some 1435)"
proof -
  have f: "first_due default_settings (Some 1435) = Some TwentyFourHour"
    by (simp add: first_due_def is24h_def default_settings_fields)
  from windows_mutually_exclusive [of default_settings "Some 1435"] f
  have lab: "label_of default_settings (Some 1435) = window_label TwentyFourHour"
    and u: "\<forall>w'. window_due default_settings (Some 1435) w' = (w' = TwentyFourHour)"
    by blast+
  from u have "window_due default_settings (Some 1435) ThreeHour = (ThreeHour = TwentyFourHour)"
    by (rule spec)
  then have n3: "\<not> is3h default_settings (Some 1435)" by simp
  from u have "window_due default_settings (Some 1435) OneHour = (OneHour = TwentyFourHour)"
    by (rule spec)
  then have n1: "\<not> is1h default_settings (Some 1435)" by simp
  from f lab n3 n1 show ?thesis by simp
qed

section \<open>Properties of the reminder cycle\<close>

lemma empty_or_missing_falsy: "empty_or_missing v \<Longrightarrow> \<not> truthy v"
  by (auto simp: empty_or_missing_def)

lemma remind_excluded:
  "excluded schedule \<Longrightarrow> remind rt net settings students lineToken now st schedule = Inr st"
  by (simp add: remind_def)

lemma for_schedules_append:
  "for_schedules rt net settings students lineToken now st (xs @ ys) =
     (case for_schedules rt net settings students lineToken now st xs of
        Inl e \<Rightarrow> Inl e
      | Inr st' \<Rightarrow> for_schedules rt net settings students lineToken now st' ys)"
  by (induction xs arbitrary: st) (auto split: sum.splits)

text \<open>
  Claim C4. A schedule whose attendance is \<open>completed\<close> or \<open>absent\<close>, or whose date,
  time or student name is empty or missing, leaves the cycle as it was: nothing is added
  to \<open>sent\<close> or \<open>skipped\<close>, no request is made, and the whole loop runs as if the
  record were not in the list. The guards come before the class time is even computed.
\<close>

theorem excluded_schedule_leaves_no_trace:
  assumes "js_get schedule ''attendance'' = JStr ATT_completed \<or>
           js_get schedule ''attendance'' = JStr ATT_absent \<or>
           empty_or_missing (js_get schedule ''schedule_date'') \<or>
           empty_or_missing (js_get schedule ''schedule_time'') \<or>
           empty_or_missing (js_get schedule ''student_name'')"
  shows "remind rt net settings students lineToken now st schedule = Inr st \<and>
         for_schedules rt net settings students lineToken now st (before @ schedule # after) =
         for_schedules rt net settings students lineToken now st (before @ after)"
proof -
  from assms have "excluded schedule"
    by (auto simp: excluded_def dest: empty_or_missing_falsy)
  then have r: "remind rt net settings students lineToken now s schedule = Inr s" for s
    by (rule remind_excluded)
  then show ?thesis
    by (simp add: for_schedules_append split: sum.splits)
qed

lemma schedule_sora_fields:
  "js_get schedule_sora ''schedule_date'' = JStr (ascii ''2024-06-10'')"
  "js_get schedule_sora ''schedule_time'' = JStr (ascii ''10:00'')"
  "js_get schedule_sora ''student_name'' = JStr (ascii ''Sora'')"
  "js_get schedule_sora ''subject'' = JStr (ascii ''Art'')"
  "js_get schedule_sora ''instructor'' = JUndef"
  "js_get schedule_sora ''attendance'' = JUndef"
  "js_get schedule_sora ''type'' = JStr (ascii ''schedule'')"
  by (simp_all add: schedule_sora_def doc_schedule_sora_def parseFirestoreDoc_def js_get_def)

lemma schedule_ren_fields:
  "js_get schedule_ren ''schedule_date'' = JStr (ascii ''2024-06-10'')"
  "js_get schedule_ren ''schedule_time'' = JStr (ascii ''10:00'')"
  "js_get schedule_ren ''student_name'' = JStr (ascii ''Ren'')"
  "js_get schedule_ren ''subject'' = JStr (ascii ''Art'')"
  "js_get schedule_ren ''instructor'' = JUndef"
  "js_get schedule_ren ''attendance'' = JUndef"
  "js_get schedule_ren ''type'' = JStr (ascii ''schedule'')"
  by (simp_all add: schedule_ren_def doc_schedule_ren_def parseFirestoreDoc_def js_get_def)

lemma student_fields:
  "js_get student_aoi ''student_name'' = JStr (ascii ''Aoi'')"
  "js_get student_aoi ''student_line_id'' = JStr (ascii ''Uaoi'')"
  "js_get student_aoi ''type'' = JStr (ascii ''student'')"
  "js_get student_ren ''student_name'' = JStr (ascii ''Ren'')"
  "js_get student_ren ''student_line_id'' = JUndef"
  "js_get student_ren ''type'' = JStr (ascii ''student'')"
  "js_get student_sora ''student_name'' = JStr (ascii ''Sora'')"
  "js_get student_sora ''student_line_id'' = JStr (ascii ''Usora'')"
  "js_get student_sora ''type'' = JStr (ascii ''student'')"
  by (simp_all add: student_aoi_def doc_student_aoi_def student_ren_def doc_student_ren_def
        student_sora_def doc_student_sora_def parseFirestoreDoc_def js_get_def)

lemma classTime_examples:
  "classTime example_runtime schedule_ren = Some 1717981200000"
  "classTime example_runtime schedule_sora = Some 1717981200000"
  by (simp_all add: classTime_def schedule_ren_fields schedule_sora_fields example_runtime_def
        ascii_def)

lemma fill_aoi:
  "banner LABEL_24h (fill example_runtime DEFAULT_template schedule_aoi) = aoi_message"
  by (simp add: banner_def fill_def dateStr_def replace_def schedule_aoi_fields js_or_def
        DEFAULT_template_def PH_student_name_def PH_datetime_def PH_subject_def
        PH_instructor_def ascii_def BANNER_open_def BANNER_close_def LABEL_24h_def
        aoi_message_def Let_def)

lemma fill_sora:
  "banner LABEL_24h (fill example_runtime DEFAULT_template schedule_sora) = sora_message"
  by (simp add: banner_def fill_def dateStr_def replace_def schedule_sora_fields js_or_def
        DEFAULT_template_def PH_student_name_def PH_datetime_def PH_subject_def
        PH_instructor_def ascii_def BANNER_open_def BANNER_close_def LABEL_24h_def
        sora_message_def Let_def)


lemma remind_sent:
  assumes "\<not> excluded schedule" and "due rt now settings schedule"
    and "find_student students schedule = Some student"
    and "truthy (js_get student ''student_line_id'')"
    and "messageBody rt settings schedule = Inr body"
    and "net (wire st) (LinePush (js_get student ''student_line_id'')
            (banner (label_of settings (diffMin rt now schedule)) body) lineToken) =
         Response status b"
  shows "remind rt net settings students lineToken now st schedule =
         Inr (st\<lparr>sent := sent st @ [Sent (js_get schedule ''student_name'')
                                         (label_of settings (diffMin rt now schedule)) status],
                wire := wire st @ [LinePush (js_get student ''student_line_id'')
                  (banner (label_of settings (diffMin rt now schedule)) body) lineToken]\<rparr>)"
  using assms by (auto simp: remind_def due_def Let_def)

lemma remind_throws:
  assumes "\<not> excluded schedule" and "due rt now settings schedule"
    and "find_student students schedule = Some student"
    and "truthy (js_get student ''student_line_id'')"
    and "messageBody rt settings schedule = Inr body"
    and "net (wire st) (LinePush (js_get student ''student_line_id'')
            (banner (label_of settings (diffMin rt now schedule)) body) lineToken) =
         NetError msg"
  shows "remind rt net settings students lineToken now st schedule =
         Inl (NetworkError, wire st @ [LinePush (js_get student ''student_line_id'')
                  (banner (label_of settings (diffMin rt now schedule)) body) lineToken])"
  using assms by (auto simp: remind_def due_def Let_def)

lemma remind_no_recipient:
  assumes "no_recipient students schedule"
  shows "remind rt net settings students lineToken now st schedule = Inr st \<or>
         remind rt net settings students lineToken now st schedule =
           Inr (st\<lparr>skipped := skipped st @
                  [Skipped (js_get schedule ''student_name'') (diffMin rt now schedule)]\<rparr>)"
  using assms by (auto simp: remind_def no_recipient_def Let_def split: option.splits)

lemma remind_unreached:
  "unreached rt now settings students schedule \<Longrightarrow>
   remind rt net settings students lineToken now st schedule = Inr st"
  by (auto simp: remind_def unreached_def due_def no_recipient_def Let_def split: option.splits)

lemma example_not_excluded:
  "\<not> excluded schedule_ren" "\<not> excluded schedule_sora"
  by (simp_all add: excluded_def schedule_ren_fields schedule_sora_fields ascii_def)

lemma example_diffMin:
  "diffMin example_runtime now_in_band schedule_ren = Some 1435"
  "diffMin example_runtime now_in_band schedule_sora = Some 1435"
  by (simp_all add: diffMin_def classTime_examples now_in_band_def)

lemma example_due:
  "due example_runtime now_in_band default_settings schedule_aoi"
  "due example_runtime now_in_band default_settings schedule_ren"
  "due example_runtime now_in_band default_settings schedule_sora"
  by (simp_all add: due_def diffMin_aoi_in_band example_diffMin is24h_def default_settings_fields)

lemma example_label: "label_of default_settings (Some 1435) = LABEL_24h"
  by (simp add: label_of_def is24h_def default_settings_fields)

lemma example_messageBody:
  "messageBody example_runtime default_settings schedule =
     Inr (fill example_runtime DEFAULT_template schedule)"
  by (simp add: messageBody_def default_settings_fields js_or_def DEFAULT_template_def)

lemma remind_aoi:
  assumes "find_student students schedule_aoi = Some student_aoi"
    and "net (wire st) (LinePush (JStr (ascii ''Uaoi'')) aoi_message lineToken) = Response status b"
  shows "remind example_runtime net default_settings students lineToken now_in_band st schedule_aoi =
         Inr (st\<lparr>sent := sent st @ [Sent (JStr (ascii ''Aoi'')) LABEL_24h status],
                wire := wire st @ [LinePush (JStr (ascii ''Uaoi'')) aoi_message lineToken]\<rparr>)"
proof -
  have "truthy (js_get student_aoi ''student_line_id'')"
    by (simp add: student_fields ascii_def)
  from remind_sent [OF schedule_aoi_not_excluded example_due(1) assms(1) this, of
          "fill example_runtime DEFAULT_template schedule_aoi" net st lineToken status b] assms(2)
  show ?thesis
    by (simp add: student_fields example_messageBody diffMin_aoi_in_band example_label fill_aoi
          schedule_aoi_fields)
qed

theorem excluded_schedule_leaves_no_trace_witness:
  "for_schedules example_runtime net_ok default_settings [student_aoi] (ascii ''token'')
       now_in_band \<lparr>sent = [], skipped = [], wire = []\<rparr>
       [schedule_aoi(''attendance'' \<mapsto> JStr ATT_absent), schedule_aoi] =
     Inr \<lparr>sent = [Sent (JStr (ascii ''Aoi'')) LABEL_24h 200], skipped = [],
          wire = [LinePush (JStr (ascii ''Uaoi'')) aoi_message (ascii ''token'')]\<rparr>"
proof -
  have "js_get (schedule_aoi(''attendance'' \<mapsto> JStr ATT_absent)) ''attendance'' = JStr ATT_absent"
    by (simp add: js_get_def)
  then have "for_schedules example_runtime net_ok default_settings [student_aoi] (ascii ''token'')
       now_in_band \<lparr>sent = [], skipped = [], wire = []\<rparr>
       ([] @ schedule_aoi(''attendance'' \<mapsto> JStr ATT_absent) # [schedule_aoi]) =
     for_schedules example_runtime net_ok default_settings [student_aoi] (ascii ''token'')
       now_in_band \<lparr>sent = [], skipped = [], wire = []\<rparr> ([] @ [schedule_aoi])"
    using excluded_schedule_leaves_no_trace by blast
  moreover have "find_student [student_aoi] schedule_aoi = Some student_aoi"
    by (simp add: find_student_def student_fields schedule_aoi_fields)
  ultimately show ?thesis
    by (simp add: remind_aoi)
qed

lemma find_student_Some:
  "find_student students schedule = Some student \<Longrightarrow>
   student \<in> set students \<and> js_get student ''student_name'' = js_get schedule ''student_name''"
  unfolding find_student_def by (induction students) (auto split: if_splits)

text \<open>
  Claim C5. When no student record carries the schedule's student name, or the first
  student record that does has no LINE id, the loop body returns normally, makes no request
  and adds nothing to \<open>sent\<close>: the schedule is passed over, not an error.
\<close>

theorem no_recipient_no_push:
  assumes "(\<forall>s \<in> set students. js_get s ''student_name'' \<noteq> js_get schedule ''student_name'') \<or>
           (\<exists>student. find_student students schedule = Some student \<and>
                      \<not> truthy (js_get student ''student_line_id''))"
  shows "\<exists>st'. remind rt net settings students lineToken now st schedule = Inr st' \<and>
               wire st' = wire st \<and> sent st' = sent st"
proof -
  from assms have "no_recipient students schedule"
    by (auto simp: no_recipient_def split: option.splits dest: find_student_Some)
  from remind_no_recipient [OF this, of rt net settings lineToken now st]
  show ?thesis by auto
qed

theorem no_recipient_no_push_witness:
  "(\<exists>st'. remind example_runtime net_ok default_settings [student_ren, student_sora]
            (ascii ''token'') now_in_band \<lparr>sent = [], skipped = [], wire = []\<rparr> schedule_aoi =
          Inr st' \<and> wire st' = [] \<and> sent st' = []) \<and>
   (\<exists>st'. remind example_runtime net_ok default_settings [student_ren, student_sora]
            (ascii ''token'') now_in_band \<lparr>sent = [], skipped = [], wire = []\<rparr> schedule_ren =
          Inr st' \<and> wire st' = [] \<and> sent st' = []) \<and>
   due example_runtime now_in_band default_settings schedule_aoi \<and>
   due example_runtime now_in_band default_settings schedule_ren"
proof -
  let ?st = "\<lparr>sent = [], skipped = [], wire = []\<rparr>"
  have "\<forall>s \<in> set [student_ren, student_sora].
          js_get s ''student_name'' \<noteq> js_get schedule_aoi ''student_name''"
    by (simp add: student_fields schedule_aoi_fields ascii_def)
  from no_recipient_no_push [of "[student_ren, student_sora]" schedule_aoi example_runtime net_ok
         default_settings "ascii ''token''" now_in_band ?st] this
  have a: "\<exists>st'. remind example_runtime net_ok default_settings [student_ren, student_sora]
            (ascii ''token'') now_in_band ?st schedule_aoi = Inr st' \<and> wire st' = [] \<and> sent st' = []"
    by simp
  have "find_student [student_ren, student_sora] schedule_ren = Some student_ren \<and>
        \<not> truthy (js_get student_ren ''student_line_id'')"
    by (simp add: find_student_def student_fields schedule_ren_fields)
  from no_recipient_no_push [of "[student_ren, student_sora]" schedule_ren example_runtime net_ok
         default_settings "ascii ''token''" now_in_band ?st] this
  have b: "\<exists>st'. remind example_runtime net_ok default_settings [student_ren, student_sora]
            (ascii ''token'') now_in_band ?st schedule_ren = Inr st' \<and> wire st' = [] \<and> sent st' = []"
    by simp
  from a b example_due(1,2) show ?thesis by blast
qed

lemma remind_count:
  assumes "remind rt net settings students lineToken now st schedule = Inr st'"
  shows "length (sent st') + length (skipped st') +
           (if unreached rt now settings students schedule then 1 else 0) =
         length (sent st) + length (skipped st) + (if excluded schedule then 0 else 1)"
  using assms
  by (auto simp: remind_def unreached_def due_def no_recipient_def Let_def
        split: option.splits if_splits sum.splits http_result.splits)

lemma for_schedules_count:
  assumes "for_schedules rt net settings students lineToken now st schedules = Inr st'"
  shows "length (sent st') + length (skipped st') +
           length (filter (unreached rt now settings students) schedules) =
         length (sent st) + length (skipped st) +
           length (filter (\<lambda>s. \<not> excluded s) schedules)"
  using assms
proof (induction schedules arbitrary: st)
  case Nil
  then show ?case by simp
next
  case (Cons s ss)
  from Cons.prems obtain st1 where
    r: "remind rt net settings students lineToken now st s = Inr st1" and
    f: "for_schedules rt net settings students lineToken now st1 ss = Inr st'"
    by (auto split: sum.splits)
  from remind_count [OF r] Cons.IH [OF f] show ?case
    by (auto split: if_splits simp: unreached_def)
qed


text \<open>
  Claim C9. A schedule that passes the guards and has a due window, but whose student has
  no LINE id, leaves \<open>sent\<close> and \<open>skipped\<close> as they were. In a cycle that returns its
  summary, the sent entries, \<open>skippedCount\<close> and the schedules of this kind add up to the
  schedules that passed the guards; so with one such schedule among them the two reported
  counts fall short of that number.
\<close>

theorem unreached_schedule_uncounted:
  assumes "LINE_CHANNEL_ACCESS_TOKEN env = Some lineToken" and "lineToken \<noteq> []"
    and "FIREBASE_PROJECT_ID env = Some projectId" and "projectId \<noteq> []"
    and "FIREBASE_WEB_API_KEY env = Some apiKey" and "apiKey \<noteq> []"
    and "getFirestoreDocs rt net [] projectId apiKey (ascii ''system_data'') = Inr (allData, w)"
    and "schedules = filter (has_type ''schedule'') allData"
    and "students = filter (has_type ''student'') allData"
    and "settings = settings_of allData"
    and "check_reminders_handler rt net env now = Inr (CrResponse code (Summary snt k t), w')"
    and "schedule \<in> set schedules" and "\<not> excluded schedule"
    and "due rt now settings schedule" and "no_recipient students schedule"
  shows "remind rt net settings students lineToken now st schedule = Inr st \<and>
         length snt + k + length (filter (unreached rt now settings students) schedules) =
           length (filter (\<lambda>s. \<not> excluded s) schedules) \<and>
         length snt + k < length (filter (\<lambda>s. \<not> excluded s) schedules)"
proof -
  from assms(13-15) have u: "unreached rt now settings students schedule"
    by (simp add: unreached_def)
  then have r: "remind rt net settings students lineToken now st schedule = Inr st"
    by (rule remind_unreached)
  from assms(1-11) obtain st' where
    f: "for_schedules rt net settings students lineToken now
          \<lparr>sent = [], skipped = [], wire = w\<rparr> schedules = Inr st'" and
    s: "snt = sent st'" "k = length (skipped st')"
    by (auto simp: check_reminders_handler_def Let_def split: sum.splits)
  from for_schedules_count [OF f] s
  have c: "length snt + k + length (filter (unreached rt now settings students) schedules) =
           length (filter (\<lambda>s. \<not> excluded s) schedules)"
    by simp
  from u assms(12) have "filter (unreached rt now settings students) schedules \<noteq> []"
    by (auto simp: filter_empty_conv)
  then have "0 < length (filter (unreached rt now settings students) schedules)"
    by simp
  with c r show ?thesis by linarith
qed

lemma schedule_types:
  "has_type ''schedule'' schedule_aoi" "has_type ''schedule'' schedule_ren"
  "has_type ''schedule'' schedule_sora"
  "\<not> has_type ''schedule'' student_aoi" "\<not> has_type ''schedule'' student_ren"
  "\<not> has_type ''schedule'' student_sora"
  "has_type ''student'' student_aoi" "has_type ''student'' student_ren"
  "has_type ''student'' student_sora"
  "\<not> has_type ''student'' schedule_aoi" "\<not> has_type ''student'' schedule_ren"
  "\<not> has_type ''student'' schedule_sora"
  "\<not> has_type ''reminder_settings'' schedule_aoi" "\<not> has_type ''reminder_settings'' schedule_ren"
  "\<not> has_type ''reminder_settings'' schedule_sora"
  "\<not> has_type ''reminder_settings'' student_aoi" "\<not> has_type ''reminder_settings'' student_ren"
  "\<not> has_type ''reminder_settings'' student_sora"
  by (simp_all add: has_type_def schedule_aoi_fields schedule_ren_fields schedule_sora_fields
        student_fields ascii_def)

lemma example_fetch:
  assumes "net [] (FirestoreGet (ascii ''p'') (ascii ''key'') (ascii ''system_data'')) =
           Response 200 listing_body"
  shows "getFirestoreDocs example_runtime net [] (ascii ''p'') (ascii ''key'') (ascii ''system_data'') =
         Inr ([schedule_aoi, schedule_ren, schedule_sora, student_aoi, student_ren, student_sora],
              [FirestoreGet (ascii ''p'') (ascii ''key'') (ascii ''system_data'')])"
  using assms
  by (simp add: getFirestoreDocs_def example_runtime_def schedule_aoi_def schedule_ren_def
        schedule_sora_def student_aoi_def student_ren_def student_sora_def)

lemma example_selection:
  "filter (has_type ''schedule'')
     [schedule_aoi, schedule_ren, schedule_sora, student_aoi, student_ren, student_sora] =
   [schedule_aoi, schedule_ren, schedule_sora]"
  "filter (has_type ''student'')
     [schedule_aoi, schedule_ren, schedule_sora, student_aoi, student_ren, student_sora] =
   [student_aoi, student_ren, student_sora]"
  "settings_of
     [schedule_aoi, schedule_ren, schedule_sora, student_aoi, student_ren, student_sora] =
   default_settings"
  by (simp_all add: schedule_types settings_of_def)

lemma example_students:
  "find_student [student_aoi, student_ren, student_sora] schedule_aoi = Some student_aoi"
  "find_student [student_aoi, student_ren, student_sora] schedule_ren = Some student_ren"
  "find_student [student_aoi, student_ren, student_sora] schedule_sora = Some student_sora"
  by (simp_all add: find_student_def student_fields schedule_aoi_fields schedule_ren_fields
        schedule_sora_fields ascii_def)

lemma remind_ren:
  "remind example_runtime net default_settings [student_aoi, student_ren, student_sora] lineToken
     now_in_band st schedule_ren = Inr st"
  by (rule remind_unreached)
     (simp add: unreached_def example_not_excluded example_due no_recipient_def
        example_students student_fields)

lemma remind_sora:
  assumes "find_student students schedule_sora = Some student_sora"
    and "net (wire st) (LinePush (JStr (ascii ''Usora'')) sora_message lineToken) = Response status b"
  shows "remind example_runtime net default_settings students lineToken now_in_band st schedule_sora =
         Inr (st\<lparr>sent := sent st @ [Sent (JStr (ascii ''Sora'')) LABEL_24h status],
                wire := wire st @ [LinePush (JStr (ascii ''Usora'')) sora_message lineToken]\<rparr>)"
proof -
  have "truthy (js_get student_sora ''student_line_id'')"
    by (simp add: student_fields ascii_def)
  from remind_sent [OF example_not_excluded(2) example_due(3) assms(1) this, of
          "fill example_runtime DEFAULT_template schedule_sora" net st lineToken status b] assms(2)
  show ?thesis
    by (simp add: student_fields example_messageBody example_diffMin example_label fill_sora
          schedule_sora_fields)
qed

lemma example_nonempty:
  "ascii ''token'' \<noteq> []" "ascii ''p'' \<noteq> []" "ascii ''key'' \<noteq> []"
  by (simp_all add: ascii_def)

lemma example_cycle:
  assumes "net [] (FirestoreGet (ascii ''p'') (ascii ''key'') (ascii ''system_data'')) =
           Response 200 listing_body"
  shows "check_reminders_handler example_runtime net example_env now =
         (case for_schedules example_runtime net default_settings
                 [student_aoi, student_ren, student_sora] (ascii ''token'') now
                 \<lparr>sent = [], skipped = [],
                  wire = [FirestoreGet (ascii ''p'') (ascii ''key'') (ascii ''system_data'')]\<rparr>
                 [schedule_aoi, schedule_ren, schedule_sora] of
            Inl e \<Rightarrow> Inl e
          | Inr st \<Rightarrow> Inr (CrResponse 200 (Summary (sent st) (length (skipped st)) now), wire st))"
  using example_fetch [of net, OF assms]
  by (simp add: check_reminders_handler_def example_env_def example_nonempty example_selection
        del: filter.simps for_schedules.simps)

lemma example_cycle_ok:
  "check_reminders_handler example_runtime net_ok example_env now_in_band =
     Inr (CrResponse 200
            (Summary [Sent (JStr (ascii ''Aoi'')) LABEL_24h 200,
                      Sent (JStr (ascii ''Sora'')) LABEL_24h 200] 0 now_in_band),
          [FirestoreGet (ascii ''p'') (ascii ''key'') (ascii ''system_data''),
           LinePush (JStr (ascii ''Uaoi'')) aoi_message (ascii ''token''),
           LinePush (JStr (ascii ''Usora'')) sora_message (ascii ''token'')])"
  by (simp add: example_cycle remind_aoi remind_ren remind_sora example_students)

theorem unreached_schedule_uncounted_witness:
  "check_reminders_handler example_runtime net_ok example_env now_in_band =
     Inr (CrResponse 200
            (Summary [Sent (JStr (ascii ''Aoi'')) LABEL_24h 200,
                      Sent (JStr (ascii ''Sora'')) LABEL_24h 200] 0 now_in_band),
          [FirestoreGet (ascii ''p'') (ascii ''key'') (ascii ''system_data''),
           LinePush (JStr (ascii ''Uaoi'')) aoi_message (ascii ''token''),
           LinePush (JStr (ascii ''Usora'')) sora_message (ascii ''token'')]) \<and>
   filter (\<lambda>s. \<not> excluded s) [schedule_aoi, schedule_ren, schedule_sora] =
     [schedule_aoi, schedule_ren, schedule_sora] \<and>
   length [Sent (JStr (ascii ''Aoi'')) LABEL_24h 200, Sent (JStr (ascii ''Sora'')) LABEL_24h 200] + 0 <
     length (filter (\<lambda>s. \<not> excluded s) [schedule_aoi, schedule_ren, schedule_sora])"
proof -
  have nr: "no_recipient [student_aoi, student_ren, student_sora] schedule_ren"
    by (simp add: no_recipient_def example_students student_fields)
  have e: "filter (\<lambda>s. \<not> excluded s) [schedule_aoi, schedule_ren, schedule_sora] =
     [schedule_aoi, schedule_ren, schedule_sora]"
    by (simp add: schedule_aoi_not_excluded example_not_excluded)
  have env: "LINE_CHANNEL_ACCESS_TOKEN example_env = Some (ascii ''token'')"
    "FIREBASE_PROJECT_ID example_env = Some (ascii ''p'')"
    "FIREBASE_WEB_API_KEY example_env = Some (ascii ''key'')"
    by (simp_all add: example_env_def)
  have fetch: "getFirestoreDocs example_runtime net_ok [] (ascii ''p'') (ascii ''key'')
      (ascii ''system_data'') =
    Inr ([schedule_aoi, schedule_ren, schedule_sora, student_aoi, student_ren, student_sora],
         [FirestoreGet (ascii ''p'') (ascii ''key'') (ascii ''system_data'')])"
    by (rule example_fetch) simp
  have m: "schedule_ren \<in> set [schedule_aoi, schedule_ren, schedule_sora]" by simp
  from unreached_schedule_uncounted [OF env(1) example_nonempty(1) env(2) example_nonempty(2)
      env(3) example_nonempty(3) fetch example_selection(1) [symmetric]
      example_selection(2) [symmetric] example_selection(3) [symmetric] example_cycle_ok m
      example_not_excluded(1) example_due(2) nr]
  have "length [Sent (JStr (ascii ''Aoi'')) LABEL_24h 200, Sent (JStr (ascii ''Sora'')) LABEL_24h 200] + 0 <
     length (filter (\<lambda>s. \<not> excluded s) [schedule_aoi, schedule_ren, schedule_sora])"
    by blast
  with e example_cycle_ok show ?thesis by blast
qed

text \<open>
  Claim C2 says that the outcome of a send is recorded whether the push succeeded or
  failed, and that a failed send never stops the cycle. For a push that LINE answers, with
  whatever status, this is \<open>remind_sent\<close>: the status goes into \<open>sent\<close> and the loop
  goes on. For a push whose request fails it does not hold: the rejected promise is not
  caught, so the loop ends there with the error, whatever schedules remain, and no
  summary is returned.
\<close>

theorem send_failure_aborts_cycle:
  assumes "for_schedules rt net settings students lineToken now st0 before = Inr st"
    and "\<not> excluded schedule" and "due rt now settings schedule"
    and "find_student students schedule = Some student"
    and "truthy (js_get student ''student_line_id'')"
    and "messageBody rt settings schedule = Inr body"
    and "net (wire st) (LinePush (js_get student ''student_line_id'')
            (banner (label_of settings (diffMin rt now schedule)) body) lineToken) =
         NetError msg"
  shows "for_schedules rt net settings students lineToken now st0 (before @ schedule # rest) =
         Inl (NetworkError, wire st @ [LinePush (js_get student ''student_line_id'')
                (banner (label_of settings (diffMin rt now schedule)) body) lineToken])"
  using assms(1) remind_throws [where net = net, OF assms(2-7)]
  by (simp add: for_schedules_append)

theorem send_failure_aborts_cycle_witness:
  "check_reminders_handler example_runtime net_line_down example_env now_in_band =
     Inl (NetworkError,
          [FirestoreGet (ascii ''p'') (ascii ''key'') (ascii ''system_data''),
           LinePush (JStr (ascii ''Uaoi'')) aoi_message (ascii ''token'')])"
proof -
  let ?st = "\<lparr>sent = [], skipped = [],
              wire = [FirestoreGet (ascii ''p'') (ascii ''key'') (ascii ''system_data'')]\<rparr>"
  have b: "for_schedules example_runtime net_line_down default_settings
             [student_aoi, student_ren, student_sora] (ascii ''token'') now_in_band ?st [] = Inr ?st"
    by simp
  have t: "truthy (js_get student_aoi ''student_line_id'')"
    by (simp add: student_fields ascii_def)
  have n: "net_line_down (wire ?st) (LinePush (js_get student_aoi ''student_line_id'')
            (banner (label_of default_settings (diffMin example_runtime now_in_band schedule_aoi))
               (fill example_runtime DEFAULT_template schedule_aoi)) (ascii ''token'')) =
         NetError (ascii ''socket hang up'')"
    by (simp add: student_fields)
  from send_failure_aborts_cycle [where net = net_line_down and rest = "[schedule_ren, schedule_sora]",
         OF b schedule_aoi_not_excluded example_due(1) example_students(1) t example_messageBody n]
  have "for_schedules example_runtime net_line_down default_settings
             [student_aoi, student_ren, student_sora] (ascii ''token'') now_in_band ?st
             [schedule_aoi, schedule_ren, schedule_sora] =
        Inl (NetworkError,
          [FirestoreGet (ascii ''p'') (ascii ''key'') (ascii ''system_data''),
           LinePush (JStr (ascii ''Uaoi'')) aoi_message (ascii ''token'')])"
    by (simp add: student_fields diffMin_aoi_in_band example_label fill_aoi
          del: for_schedules.simps)
  then show ?thesis
    by (simp add: example_cycle del: for_schedules.simps)
qed

text \<open>The same cycle when LINE answers 500 to the first push: both outcomes are recorded.\<close>

lemma example_cycle_line_500:
  "check_reminders_handler example_runtime net_line_500 example_env now_in_band =
     Inr (CrResponse 200
            (Summary [Sent (JStr (ascii ''Aoi'')) LABEL_24h 500,
                      Sent (JStr (ascii ''Sora'')) LABEL_24h 200] 0 now_in_band),
          [FirestoreGet (ascii ''p'') (ascii ''key'') (ascii ''system_data''),
           LinePush (JStr (ascii ''Uaoi'')) aoi_message (ascii ''token''),
           LinePush (JStr (ascii ''Usora'')) sora_message (ascii ''token'')])"
  by (simp add: example_cycle remind_aoi remind_ren remind_sora example_students ascii_def [of "''Usora''"] ascii_def [of "''Uaoi''"])

lemma data_source_non_200:
  assumes "LINE_CHANNEL_ACCESS_TOKEN env = Some lineToken" and "lineToken \<noteq> []"
    and "FIREBASE_PROJECT_ID env = Some projectId" and "projectId \<noteq> []"
    and "FIREBASE_WEB_API_KEY env = Some apiKey" and "apiKey \<noteq> []"
    and "net [] (FirestoreGet projectId apiKey (ascii ''system_data'')) = Response status body"
    and "status \<noteq> 200"
  shows "check_reminders_handler rt net env now =
         Inr (CrResponse 200 (Summary [] 0 now),
              [FirestoreGet projectId apiKey (ascii ''system_data'')])"
  using assms
  by (simp add: check_reminders_handler_def getFirestoreDocs_def settings_of_def)

text \<open>
  Claim C7 says that a data source call that fails or returns a non-success status gives
  an empty cycle and a normal 200 summary. For a status other than 200 this is
  \<open>data_source_non_200\<close>. For a request that fails it does not hold: the rejection of
  \<open>request\<close> passes through \<open>getFirestoreDocs\<close> and the handler uncaught, and the
  invocation fails without a response.
\<close>

theorem data_source_failure_fails_invocation:
  assumes "LINE_CHANNEL_ACCESS_TOKEN env = Some lineToken" and "lineToken \<noteq> []"
    and "FIREBASE_PROJECT_ID env = Some projectId" and "projectId \<noteq> []"
    and "FIREBASE_WEB_API_KEY env = Some apiKey" and "apiKey \<noteq> []"
    and "net [] (FirestoreGet projectId apiKey (ascii ''system_data'')) = NetError msg"
  shows "check_reminders_handler rt net env now =
         Inl (NetworkError, [FirestoreGet projectId apiKey (ascii ''system_data'')])"
  using assms
  by (simp add: check_reminders_handler_def getFirestoreDocs_def)

theorem data_source_failure_fails_invocation_witness:
  "check_reminders_handler example_runtime net_firestore_down example_env now_in_band =
     Inl (NetworkError, [FirestoreGet (ascii ''p'') (ascii ''key'') (ascii ''system_data'')]) \<and>
   check_reminders_handler example_runtime net_firestore_403 example_env now_in_band =
     Inr (CrResponse 200 (Summary [] 0 now_in_band),
          [FirestoreGet (ascii ''p'') (ascii ''key'') (ascii ''system_data'')])"
proof -
  have env: "LINE_CHANNEL_ACCESS_TOKEN example_env = Some (ascii ''token'')"
    "FIREBASE_PROJECT_ID example_env = Some (ascii ''p'')"
    "FIREBASE_WEB_API_KEY example_env = Some (ascii ''key'')"
    by (simp_all add: example_env_def)
  have d: "net_firestore_down [] (FirestoreGet (ascii ''p'') (ascii ''key'') (ascii ''system_data'')) =
           NetError (ascii ''getaddrinfo ENOTFOUND'')"
    by simp
  have f: "net_firestore_403 [] (FirestoreGet (ascii ''p'') (ascii ''key'') (ascii ''system_data'')) =
           Response 403 (ascii ''{}'')"
    by simp
  from data_source_failure_fails_invocation [where net = net_firestore_down, OF env(1) example_nonempty(1) env(2) example_nonempty(2)
         env(3) example_nonempty(3) d]
       data_source_non_200 [where net = net_firestore_403, OF env(1) example_nonempty(1) env(2) example_nonempty(2)
         env(3) example_nonempty(3) f]
  show ?thesis by simp
qed

section \<open>Properties of the renderer\<close>

lemma StringIndexOf_split:
  "StringIndexOf str pat = Some pos \<Longrightarrow> str = take pos str @ pat @ drop (pos + length pat) str"
proof (induction str arbitrary: pos)
  case Nil
  then show ?case by (simp split: if_splits)
next
  case (Cons c cs)
  show ?case
  proof (cases "prefix pat (c # cs)")
    case True
    then obtain post where "c # cs = pat @ post" by (auto simp: prefix_def)
    moreover from True Cons.prems have "pos = 0" by simp
    ultimately show ?thesis by simp
  next
    case False
    with Cons.prems obtain p where p: "StringIndexOf cs pat = Some p" "pos = Suc p"
      by auto
    from Cons.IH [OF p(1)] p(2) show ?thesis by simp
  qed
qed

lemma replace_keeps:
  assumes "c \<in> set str" and "c \<notin> set pat"
  shows "c \<in> set (replace str pat rv)"
proof (cases "StringIndexOf str pat")
  case None
  with assms show ?thesis by (simp add: replace_def)
next
  case (Some pos)
  from StringIndexOf_split [OF Some] assms
  have "c \<in> set (take pos str) \<or> c \<in> set (drop (pos + length pat) str)"
    by (metis Un_iff set_append)
  with Some show ?thesis by (auto simp: replace_def Let_def)
qed

lemma fill_keeps:
  assumes "c \<in> set template" and "c \<notin> set PH_student_name" and "c \<notin> set PH_datetime"
    and "c \<notin> set PH_subject" and "c \<notin> set PH_instructor"
  shows "c \<in> set (fill rt template schedule)"
  unfolding fill_def using assms by (intro replace_keeps)

lemma templates_differ: "FALLBACK_template \<noteq> DEFAULT_template"
  by (simp add: FALLBACK_template_def DEFAULT_template_def)

text \<open>
  Claim C10. When the settings record has no template, or an empty one, the message body
  is rendered from the second hard-coded template, which is not the template of the
  default settings; and the body rendered from it is never empty (the text between its
  placeholders survives every substitution).
\<close>

theorem fallback_template:
  assumes "empty_or_missing (js_get settings ''template_24h'')"
  shows "messageBody rt settings schedule = Inr (fill rt FALLBACK_template schedule) \<and>
         fill rt FALLBACK_template schedule \<noteq> [] \<and>
         FALLBACK_template \<noteq> DEFAULT_template \<and>
         js_get default_settings ''template_24h'' = JStr DEFAULT_template"
proof -
  from assms have "js_or (js_get settings ''template_24h'') (JStr FALLBACK_template) =
      JStr FALLBACK_template"
    by (auto simp: js_or_def empty_or_missing_def)
  then have m: "messageBody rt settings schedule = Inr (fill rt FALLBACK_template schedule)"
    by (simp add: messageBody_def)
  have "0x3055 \<in> set (fill rt FALLBACK_template schedule)"
    by (rule fill_keeps)
       (simp_all add: FALLBACK_template_def PH_student_name_def PH_datetime_def PH_subject_def
          PH_instructor_def)
  then have "fill rt FALLBACK_template schedule \<noteq> []" by auto
  with m templates_differ default_settings_fields(4) show ?thesis by simp
qed

theorem fallback_template_witness:
  "messageBody example_runtime (default_settings(''template_24h'' \<mapsto> JStr [])) schedule_aoi =
     Inr
        [0x41, 0x6F, 0x69, 0x3055, 0x3093, 0x3001, 0x6388, 0x696D, 0x30EA, 0x30DE, 0x30A4,
         0x30F3, 0x30C9, 0xA, 0xD83D, 0xDCC5, 0x32, 0x30, 0x32, 0x34, 0x2D, 0x30, 0x36,
         0x2D, 0x31, 0x30, 0x20, 0x31, 0x30, 0x3A, 0x30, 0x30, 0xA, 0xD83D, 0xDCDA, 0x4D,
         0x61, 0x74, 0x68] \<and>
   messageBody example_runtime [''remind_24h'' \<mapsto> JBool True] schedule_aoi =
     Inr
        [0x41, 0x6F, 0x69, 0x3055, 0x3093, 0x3001, 0x6388, 0x696D, 0x30EA, 0x30DE, 0x30A4,
         0x30F3, 0x30C9, 0xA, 0xD83D, 0xDCC5, 0x32, 0x30, 0x32, 0x34, 0x2D, 0x30, 0x36,
         0x2D, 0x31, 0x30, 0x20, 0x31, 0x30, 0x3A, 0x30, 0x30, 0xA, 0xD83D, 0xDCDA, 0x4D,
         0x61, 0x74, 0x68]"
proof -
  have f: "fill example_runtime FALLBACK_template schedule_aoi =
        [0x41, 0x6F, 0x69, 0x3055, 0x3093, 0x3001, 0x6388, 0x696D, 0x30EA, 0x30DE, 0x30A4,
         0x30F3, 0x30C9, 0xA, 0xD83D, 0xDCC5, 0x32, 0x30, 0x32, 0x34, 0x2D, 0x30, 0x36,
         0x2D, 0x31, 0x30, 0x20, 0x31, 0x30, 0x3A, 0x30, 0x30, 0xA, 0xD83D, 0xDCDA, 0x4D,
         0x61, 0x74, 0x68]"
    by (simp add: fill_def dateStr_def replace_def schedule_aoi_fields js_or_def
        FALLBACK_template_def PH_student_name_def PH_datetime_def PH_subject_def
        PH_instructor_def ascii_def Let_def)
  have "empty_or_missing (js_get (default_settings(''template_24h'' \<mapsto> JStr [])) ''template_24h'')"
    by (simp add: empty_or_missing_def js_get_def)
  from fallback_template [OF this, of example_runtime schedule_aoi]
  have a: "messageBody example_runtime (default_settings(''template_24h'' \<mapsto> JStr [])) schedule_aoi =
     Inr (fill example_runtime FALLBACK_template schedule_aoi)"
    by blast
  have "empty_or_missing (js_get [''remind_24h'' \<mapsto> JBool True] ''template_24h'')"
    by (simp add: empty_or_missing_def js_get_def)
  from fallback_template [OF this, of example_runtime schedule_aoi]
  have b: "messageBody example_runtime [''remind_24h'' \<mapsto> JBool True] schedule_aoi =
     Inr (fill example_runtime FALLBACK_template schedule_aoi)"
    by blast
  from a b f show ?thesis by simp
qed


subsection \<open>Values as replacement patterns\<close>

text \<open>
  A value without a dollar sign is put in as it is, at the first occurrence of the
  placeholder only; a template without the placeholder is left as it is.
\<close>

lemma GetSubstitution_plain:
  "0x24 \<notin> set rv \<Longrightarrow> GetSubstitution m p f rv = rv"
  by (induction m p f rv rule: GetSubstitution.induct) auto

lemma replace_plain:
  assumes "ph \<noteq> []" and "0x24 \<notin> set v"
  shows "replace t ph v = substitute_first t ph v"
  using assms
proof (induction t)
  case Nil
  then show ?case by (simp add: replace_def)
next
  case (Cons c cs)
  then show ?case
    by (auto simp: replace_def Let_def GetSubstitution_plain split: option.splits)
qed

lemma substitute_first_absent:
  "\<forall>pre post. t \<noteq> pre @ ph @ post \<Longrightarrow> substitute_first t ph v = t"
proof (induction t)
  case Nil
  then show ?case by simp
next
  case (Cons c cs)
  have "\<not> prefix ph (c # cs)"
    using Cons.prems by (metis append_Nil prefixE)
  moreover have "\<forall>pre post. cs \<noteq> pre @ ph @ post"
    using Cons.prems by (metis append_Cons)
  ultimately show ?case using Cons.IH by simp
qed

lemma substitute_first_occurrence:
  assumes "\<forall>i<length pre. \<not> prefix ph (drop i (pre @ ph @ post))" and "ph \<noteq> []"
  shows "substitute_first (pre @ ph @ post) ph v = pre @ v @ post"
  using assms
proof (induction pre)
  case Nil
  then show ?case by (cases ph) auto
next
  case (Cons c cs)
  from Cons.prems(1) have np: "\<not> prefix ph ((c # cs) @ ph @ post)"
    by (metis drop0 length_greater_0_conv list.distinct(1))
  have "\<not> prefix ph (drop i (cs @ ph @ post))" if "i < length cs" for i
    using Cons.prems(1) [rule_format, of "Suc i"] that by simp
  with Cons.IH Cons.prems(2) np show ?case by simp
qed

lemma placeholders_nonempty:
  "PH_student_name \<noteq> []" "PH_datetime \<noteq> []" "PH_subject \<noteq> []" "PH_instructor \<noteq> []"
  by (simp_all add: PH_student_name_def PH_datetime_def PH_subject_def PH_instructor_def)

lemma fill_without_dollar:
  assumes "0x24 \<notin> set (ToString rt (js_get schedule ''student_name''))"
    and "0x24 \<notin> set (dateStr rt schedule)"
    and "0x24 \<notin> set (ToString rt (js_or (js_get schedule ''subject'') (JStr [])))"
    and "0x24 \<notin> set (ToString rt (js_or (js_get schedule ''instructor'') (JStr [])))"
  shows "fill rt template schedule = render rt template schedule"
  using assms by (simp add: fill_def render_def replace_plain placeholders_nonempty)


text \<open>
  Claim C6 says that the renderer puts the student name, the date and time, the subject
  and the instructor in place of the first occurrence of their placeholders, for every
  template and schedule. For values without a dollar sign this is
  \<open>fill_without_dollar\<close>. It does not hold for a value with one: \<open>replace\<close> reads its
  second argument as a replacement pattern, so the subject \<open>$$\<close> is rendered as \<open>$\<close>.
\<close>

theorem dollar_in_value_is_a_pattern:
  "messageBody example_runtime [''template_24h'' \<mapsto> JStr PH_subject]
       (schedule_aoi(''subject'' \<mapsto> JStr (ascii ''$$''))) = Inr (ascii ''$'') \<and>
   render example_runtime PH_subject
       (schedule_aoi(''subject'' \<mapsto> JStr (ascii ''$$''))) = ascii ''$$'' \<and>
   fill example_runtime DEFAULT_template (schedule_aoi(''subject'' \<mapsto> JStr (ascii ''$$''))) \<noteq>
   render example_runtime DEFAULT_template (schedule_aoi(''subject'' \<mapsto> JStr (ascii ''$$'')))"
proof -
  define s where "s = schedule_aoi(''subject'' \<mapsto> JStr (ascii ''$$''))"
  define settings :: jsobject where "settings = [''template_24h'' \<mapsto> JStr PH_subject]"
  have fields: "js_get s ''student_name'' = JStr (ascii ''Aoi'')"
    "js_get s ''schedule_date'' = JStr (ascii ''2024-06-10'')"
    "js_get s ''schedule_time'' = JStr (ascii ''10:00'')"
    "js_get s ''subject'' = JStr (ascii ''$$'')"
    "js_get s ''instructor'' = JUndef"
    using schedule_aoi_fields by (simp_all add: js_get_def s_def)
  have t: "js_get settings ''template_24h'' = JStr PH_subject"
    by (simp add: js_get_def settings_def)
  have a: "messageBody example_runtime settings s = Inr (ascii ''$'')"
    by (simp add: messageBody_def t js_or_def fill_def dateStr_def replace_def fields
          PH_student_name_def PH_datetime_def PH_subject_def PH_instructor_def ascii_def Let_def)
  have b: "render example_runtime PH_subject s = ascii ''$$''"
    by (simp add: render_def js_or_def dateStr_def fields
          PH_student_name_def PH_datetime_def PH_subject_def PH_instructor_def ascii_def)
  have c: "length (fill example_runtime DEFAULT_template s) = 72"
    by (simp add: js_or_def fill_def dateStr_def replace_def fields DEFAULT_template_def
          PH_student_name_def PH_datetime_def PH_subject_def PH_instructor_def ascii_def Let_def)
  have d: "length (render example_runtime DEFAULT_template s) = 73"
    by (simp add: render_def js_or_def dateStr_def fields DEFAULT_template_def
          PH_student_name_def PH_datetime_def PH_subject_def PH_instructor_def ascii_def)
  from c d have "fill example_runtime DEFAULT_template s \<noteq> render example_runtime DEFAULT_template s"
    by auto
  with a b show ?thesis unfolding s_def settings_def by simp
qed

theorem dollar_in_value_is_a_pattern_witness:
  "messageBody example_runtime [''template_24h'' \<mapsto> JStr PH_subject]
       (schedule_aoi(''subject'' \<mapsto> JStr (ascii ''$$''))) \<noteq>
   Inr (render example_runtime PH_subject (schedule_aoi(''subject'' \<mapsto> JStr (ascii ''$$''))))"
  using dollar_in_value_is_a_pattern by (simp add: ascii_def)

section \<open>Properties of the broadcast\<close>

lemma for_userIds_outcomes:
  "for_userIds rt net message accessToken (results, reqs) userIds =
     (results @
        map (\<lambda>i. PushResult (userIds ! i)
                   (pushMessage rt
                      (net (reqs @ map (\<lambda>u. PushMessage u message accessToken) (take i userIds))
                           (PushMessage (userIds ! i) message accessToken))))
            [0..<length userIds],
      reqs @ map (\<lambda>u. PushMessage u message accessToken) userIds)"
proof (induction userIds arbitrary: results reqs)
  case Nil
  then show ?case by simp
next
  case (Cons u us)
  show ?case
    by (simp add: Cons.IH Let_def upt_conv_Cons map_Suc_upt [symmetric] del: upt_Suc)
qed

text \<open>
  Claim C8. For a well-formed broadcast request the handler answers 200 with one result
  per recipient id, in the order of the input; every recipient is pushed to exactly once,
  whatever happened to the others; and each result is \<open>success\<close> or \<open>error\<close> according
  to what the channel answered to that recipient's own push.
\<close>

theorem broadcast_one_outcome_each:
  assumes "httpMethod event = ascii ''POST''"
    and "accessToken = Some tok" and "tok \<noteq> []"
    and "event_body event = Some b" and "JSON_parse rt b = Some (JsObj kvs)"
    and "map_of kvs ''userIds'' = Some (JsArr userIds)"
    and "map_of kvs ''message'' = Some message" and "json_truthy message"
  shows "\<exists>results.
           send_reminder_handler rt net accessToken event =
             Inr (SrResponse 200 (Results results),
                  map (\<lambda>u. PushMessage u message tok) userIds) \<and>
           length results = length userIds \<and>
           map result_userId results = userIds \<and>
           (\<forall>i<length userIds.
              result_status (results ! i) =
                pushMessage rt (net (map (\<lambda>u. PushMessage u message tok) (take i userIds))
                                    (PushMessage (userIds ! i) message tok))) \<and>
           (\<forall>i<length userIds.
              (result_status (results ! i) = Success) =
                (\<exists>body. net (map (\<lambda>u. PushMessage u message tok) (take i userIds))
                              (PushMessage (userIds ! i) message tok) = Response 200 body)) \<and>
           (\<forall>r \<in> set results. result_status r = Success \<or> (\<exists>m. result_status r = Error m))"
proof -
  let ?rs = "map (\<lambda>i. PushResult (userIds ! i)
                   (pushMessage rt
                      (net (map (\<lambda>u. PushMessage u message tok) (take i userIds))
                           (PushMessage (userIds ! i) message tok))))
            [0..<length userIds]"
  from assms have "send_reminder_handler rt net accessToken event =
      Inr (SrResponse 200 (Results ?rs), map (\<lambda>u. PushMessage u message tok) userIds)"
    by (simp add: send_reminder_handler_def for_userIds_outcomes)
  moreover have "map result_userId ?rs = userIds"
    by (simp add: comp_def map_nth)
  moreover have "\<forall>r \<in> set ?rs. result_status r = Success \<or> (\<exists>m. result_status r = Error m)"
    by (metis push_status.exhaust)
  moreover have "(pushMessage rt res = Success) = (\<exists>body. res = Response 200 body)" for res
    by (cases res) (auto simp: pushMessage_def)
  ultimately show ?thesis by (intro exI [of _ ?rs]) simp
qed


theorem broadcast_one_outcome_each_witness:
  "send_reminder_handler example_runtime sr_net_u2_fails (Some (ascii ''token'')) broadcast_event =
     Inr (SrResponse 200
            (Results [PushResult (JsStr (ascii ''U1'')) Success,
                      PushResult (JsStr (ascii ''U2'')) (Error (ascii ''LINE API error: 400 bad'')),
                      PushResult (JsStr (ascii ''U3'')) Success]),
          [PushMessage (JsStr (ascii ''U1'')) (JsStr (ascii ''hello'')) (ascii ''token''),
           PushMessage (JsStr (ascii ''U2'')) (JsStr (ascii ''hello'')) (ascii ''token''),
           PushMessage (JsStr (ascii ''U3'')) (JsStr (ascii ''hello'')) (ascii ''token'')])"
proof -
  define kvs where "kvs = [(''userIds'', JsArr [JsStr (ascii ''U1''), JsStr (ascii ''U2''),
                                                JsStr (ascii ''U3'')]),
                           (''message'', JsStr (ascii ''hello''))]"
  let ?ids = "[JsStr (ascii ''U1''), JsStr (ascii ''U2''), JsStr (ascii ''U3'')]"
  let ?mk = "\<lambda>u. PushMessage u (JsStr (ascii ''hello'')) (ascii ''token'')"
  have h: "httpMethod broadcast_event = ascii ''POST''"
    "event_body broadcast_event = Some broadcast_body"
    by (simp_all add: broadcast_event_def)
  have p: "JSON_parse example_runtime broadcast_body = Some (JsObj kvs)"
    by (simp add: example_runtime_def kvs_def)
  have k: "map_of kvs ''userIds'' = Some (JsArr ?ids)"
    "map_of kvs ''message'' = Some (JsStr (ascii ''hello''))"
    by (simp_all add: kvs_def)
  have m: "json_truthy (JsStr (ascii ''hello''))"
    by (simp add: ascii_def)
  from broadcast_one_outcome_each [where net = sr_net_u2_fails,
         OF h(1) refl example_nonempty(1) h(2) p k m]
  obtain results where
    r: "send_reminder_handler example_runtime sr_net_u2_fails (Some (ascii ''token''))
          broadcast_event = Inr (SrResponse 200 (Results results), map ?mk ?ids)"
    and l: "length results = length ?ids"
    and u: "map result_userId results = ?ids"
    and s: "\<forall>i<length ?ids. result_status (results ! i) =
              pushMessage example_runtime
                (sr_net_u2_fails (map ?mk (take i ?ids)) (?mk (?ids ! i)))"
    by (elim exE conjE) (rule that)
  from l obtain r0 r1 r2 where rs: "results = [r0, r1, r2]"
    by (auto simp: length_Suc_conv)
  have ne: "JsStr (ascii ''U1'') \<noteq> JsStr (ascii ''U2'')" "JsStr (ascii ''U3'') \<noteq> JsStr (ascii ''U2'')"
    by (simp_all add: ascii_def)
  have e: "pushMessage example_runtime (Response 400 (ascii ''bad'')) =
           Error (ascii ''LINE API error: 400 bad'')"
    by (simp add: pushMessage_def example_runtime_def ascii_def)
  from s have "result_status (results ! 0) =
      pushMessage example_runtime (sr_net_u2_fails (map ?mk (take 0 ?ids)) (?mk (?ids ! 0)))"
    by simp
  with rs ne have s0: "result_status r0 = Success"
    by (simp add: pushMessage_def)
  from s have "result_status (results ! 1) =
      pushMessage example_runtime (sr_net_u2_fails (map ?mk (take 1 ?ids)) (?mk (?ids ! 1)))"
    by simp
  with rs e have s1: "result_status r1 = Error (ascii ''LINE API error: 400 bad'')"
    by simp
  from s have "result_status (results ! 2) =
      pushMessage example_runtime (sr_net_u2_fails (map ?mk (take 2 ?ids)) (?mk (?ids ! 2)))"
    by simp
  with rs ne have s2: "result_status r2 = Success"
    by (simp add: pushMessage_def)
  from u rs have "result_userId r0 = JsStr (ascii ''U1'')" "result_userId r1 = JsStr (ascii ''U2'')"
    "result_userId r2 = JsStr (ascii ''U3'')"
    by simp_all
  with s0 s1 s2 have
    "r0 = PushResult (JsStr (ascii ''U1'')) Success"
    "r1 = PushResult (JsStr (ascii ''U2'')) (Error (ascii ''LINE API error: 400 bad''))"
    "r2 = PushResult (JsStr (ascii ''U3'')) Success"
    by (simp_all add: push_result.expand)
  with r rs show ?thesis by simp
qed

end
